theory Spec2Isabelle
  imports Main "HOL-Library.Word"
begin

unbundle bit_operations_syntax

section \<open>The read/write split router: routing of statements (rwsplit_route_stmt.cc)\<close>

text \<open>
  A shallow embedding of \<^verbatim>\<open>src/server/modules/routing/readwritesplit/rwsplit_route_stmt.cc\<close>.
  Every function of that file is a HOL function of the same name; the router session
  (\<^verbatim>\<open>ROUTER_CLIENT_SES\<close>) is a record that is passed in and returned updated; a
  by-reference output parameter (\<^verbatim>\<open>SRWBackend& target\<close>) is passed in and returned.
  Logging (\<^verbatim>\<open>MXS_INFO\<close>, \<^verbatim>\<open>MXS_ERROR\<close>, ...) and debug assertions
  (\<^verbatim>\<open>ss_dassert\<close>) have no effect on the state and are left out.
\<close>

subsection \<open>Enumerations and bit fields of the absent headers\<close>

text \<open>
  Modelled from the spec: the enumeration \<^verbatim>\<open>route_target_t\<close> (readwritesplit.hh) is not
  among the sources. The spec calls the route target "a bitfield combining a coarse role
  (ALL / PRIMARY / SLAVE) with modifiers (NAMED_SERVER, RLAG_MAX)": every name is one bit
  of its own and \<^verbatim>\<open>TARGET_UNDEFINED\<close> is the empty bit field. The source keeps the
  target in an \<^verbatim>\<open>int\<close>, here a 32-bit word.
\<close>

type_synonym route_target_t = "32 word"

definition TARGET_UNDEFINED :: route_target_t where "TARGET_UNDEFINED = 0x00"
definition TARGET_MASTER :: route_target_t where "TARGET_MASTER = 0x01"
definition TARGET_SLAVE :: route_target_t where "TARGET_SLAVE = 0x02"
definition TARGET_NAMED_SERVER :: route_target_t where "TARGET_NAMED_SERVER = 0x04"
definition TARGET_ALL :: route_target_t where "TARGET_ALL = 0x08"
definition TARGET_RLAG_MAX :: route_target_t where "TARGET_RLAG_MAX = 0x10"

text \<open>The macros \<^verbatim>\<open>TARGET_IS_...(t)\<close> test one bit of the field.\<close>

definition TARGET_IS_MASTER :: "route_target_t \<Rightarrow> bool" where
  "TARGET_IS_MASTER t = (t AND TARGET_MASTER \<noteq> 0)"
definition TARGET_IS_SLAVE :: "route_target_t \<Rightarrow> bool" where
  "TARGET_IS_SLAVE t = (t AND TARGET_SLAVE \<noteq> 0)"
definition TARGET_IS_NAMED_SERVER :: "route_target_t \<Rightarrow> bool" where
  "TARGET_IS_NAMED_SERVER t = (t AND TARGET_NAMED_SERVER \<noteq> 0)"
definition TARGET_IS_ALL :: "route_target_t \<Rightarrow> bool" where
  "TARGET_IS_ALL t = (t AND TARGET_ALL \<noteq> 0)"
definition TARGET_IS_RLAG_MAX :: "route_target_t \<Rightarrow> bool" where
  "TARGET_IS_RLAG_MAX t = (t AND TARGET_RLAG_MAX \<noteq> 0)"

text \<open>
  Modelled from the spec: the query-type flags of the classifier (query_classifier.h, not
  among the sources) are "bitflags" of a 32-bit mask (\<^verbatim>\<open>uint32_t qtype\<close>), one bit per
  flag the router consumes; \<^verbatim>\<open>qc_query_is_type (mask, type)\<close> holds when every bit of
  \<^verbatim>\<open>type\<close> is set in \<^verbatim>\<open>mask\<close>.
\<close>

definition QUERY_TYPE_UNKNOWN :: "32 word" where "QUERY_TYPE_UNKNOWN = 0x000000"
definition QUERY_TYPE_READ :: "32 word" where "QUERY_TYPE_READ = 0x000002"
definition QUERY_TYPE_WRITE :: "32 word" where "QUERY_TYPE_WRITE = 0x000004"
definition QUERY_TYPE_MASTER_READ :: "32 word" where "QUERY_TYPE_MASTER_READ = 0x000008"
definition QUERY_TYPE_SESSION_WRITE :: "32 word" where "QUERY_TYPE_SESSION_WRITE = 0x000010"
definition QUERY_TYPE_USERVAR_WRITE :: "32 word" where "QUERY_TYPE_USERVAR_WRITE = 0x000020"
definition QUERY_TYPE_USERVAR_READ :: "32 word" where "QUERY_TYPE_USERVAR_READ = 0x000040"
definition QUERY_TYPE_SYSVAR_READ :: "32 word" where "QUERY_TYPE_SYSVAR_READ = 0x000080"
definition QUERY_TYPE_GSYSVAR_READ :: "32 word" where "QUERY_TYPE_GSYSVAR_READ = 0x000200"
definition QUERY_TYPE_GSYSVAR_WRITE :: "32 word" where "QUERY_TYPE_GSYSVAR_WRITE = 0x000400"
definition QUERY_TYPE_ENABLE_AUTOCOMMIT :: "32 word" where "QUERY_TYPE_ENABLE_AUTOCOMMIT = 0x001000"
definition QUERY_TYPE_DISABLE_AUTOCOMMIT :: "32 word" where "QUERY_TYPE_DISABLE_AUTOCOMMIT = 0x002000"
definition QUERY_TYPE_PREPARE_NAMED_STMT :: "32 word" where "QUERY_TYPE_PREPARE_NAMED_STMT = 0x010000"
definition QUERY_TYPE_PREPARE_STMT :: "32 word" where "QUERY_TYPE_PREPARE_STMT = 0x020000"
definition QUERY_TYPE_SHOW_TABLES :: "32 word" where "QUERY_TYPE_SHOW_TABLES = 0x400000"

definition qc_query_is_type :: "32 word \<Rightarrow> 32 word \<Rightarrow> bool" where
  "qc_query_is_type typemask type = (typemask AND type = type)"

text \<open>
  Modelled from the spec: the hint types (hint.h, not among the sources) are the six the
  spec lists as recognised: route-to-primary, route-to-replica, route-to-named-server,
  route-to-uptodate-server, route-to-all and parameter (key = value). A hint carries its
  type, its data (the server name or the parameter's key) and its value; the chain
  \<^verbatim>\<open>hint->next\<close> is a list.
\<close>

datatype HINT_TYPE =
    HINT_ROUTE_TO_MASTER
  | HINT_ROUTE_TO_SLAVE
  | HINT_ROUTE_TO_NAMED_SERVER
  | HINT_ROUTE_TO_UPTODATE_SERVER
  | HINT_ROUTE_TO_ALL
  | HINT_PARAMETER

record HINT =
  hint_type :: HINT_TYPE
  hint_data :: string
  hint_value :: string

text \<open>
  Modelled from the spec: the remaining enumerations of the absent headers, with the values
  the spec names: the load-data state (inactive, start, active, end),
  \<^verbatim>\<open>use_sql_variables_in\<close> (primary, all), \<^verbatim>\<open>master_failure_mode\<close> (fail-instantly,
  fail-on-write, error-on-write) and the role asked of the selector (primary, replica).
\<close>

datatype load_data_state_t = LOAD_DATA_INACTIVE | LOAD_DATA_START | LOAD_DATA_ACTIVE | LOAD_DATA_END

datatype mxs_target_t = TYPE_UNDEFINED | TYPE_MASTER | TYPE_ALL

datatype failure_mode = RW_FAIL_INSTANTLY | RW_FAIL_ON_WRITE | RW_ERROR_ON_WRITE

datatype backend_type_t = BE_UNDEFINED | BE_MASTER | BE_SLAVE

subsection \<open>C strings\<close>

text \<open>
  A C string is the list of its characters before the terminating NUL.
  \<^verbatim>\<open>tolower\<close> is the one of the C locale: it maps the 26 upper-case ASCII letters and
  nothing else.
\<close>

definition tolower :: "char \<Rightarrow> char" where
  "tolower c =
     (case map_of (zip ''ABCDEFGHIJKLMNOPQRSTUVWXYZ'' ''abcdefghijklmnopqrstuvwxyz'') c of
        Some l \<Rightarrow> l
      | None \<Rightarrow> c)"

text \<open>
  \<^verbatim>\<open>strcasecmp (s1, s2) == 0\<close>: the strings are equal up to the case of letters.
  \<^verbatim>\<open>strncasecmp (s1, s2, n) == 0\<close>: the same of their first \<open>n\<close> characters (a string
  shorter than \<open>n\<close> is compared whole, its NUL included).
\<close>

definition strcasecmp_eq :: "string \<Rightarrow> string \<Rightarrow> bool" where
  "strcasecmp_eq s1 s2 = (map tolower s1 = map tolower s2)"

definition strncasecmp_eq :: "string \<Rightarrow> string \<Rightarrow> nat \<Rightarrow> bool" where
  "strncasecmp_eq s1 s2 n = (map tolower (take n s1) = map tolower (take n s2))"

subsection \<open>Data model\<close>

text \<open>
  The request buffer (\<^verbatim>\<open>GWBUF\<close>): its bytes, the hint chain the hint parser attached to
  it, and the one type bit the router sets (\<^verbatim>\<open>GWBUF_TYPE_COLLECT_RESULT\<close>).
\<close>

record GWBUF =
  gwbuf_data :: "8 word list"
  hint :: "HINT list"
  gwbuf_collect_result :: bool

definition gwbuf_length :: "GWBUF \<Rightarrow> nat" where
  "gwbuf_length b = length (gwbuf_data b)"

text \<open>
  A session command (\<^verbatim>\<open>mxs::SessionCommand\<close>): the buffer it owns and its position,
  an unsigned 64-bit integer.
\<close>

record SessionCommand =
  sc_buffer :: GWBUF
  sc_position :: "64 word"

datatype reply_state_t = REPLY_STATE_DONE | REPLY_STATE_START | REPLY_STATE_RSET_COLDEF
  | REPLY_STATE_RSET_ROWS

text \<open>
  Modelled from the spec: a backend handle (\<^verbatim>\<open>RWBackend\<close>, declared in an absent header).
  The spec's attributes: "a stable server name", "role flags {primary, replica, relay,
  ...}", "depth in the replication tree", "current replication lag (seconds or sentinel
  unknown)", "last-read timestamp", "awaiting-result flag", the per-backend queue of
  session commands, the reply state, and the requests written to its connection (a log for
  the functions that write, which are parameters of the model). The three role fields are
  the values of the macros
  \<^verbatim>\<open>SERVER_IS_MASTER\<close>, \<^verbatim>\<open>SERVER_IS_SLAVE\<close> and \<^verbatim>\<open>SERVER_IS_RELAY_SERVER\<close> on the
  status of the handle's server.
\<close>

record backend =
  unique_name :: string
  in_use :: bool
  is_active :: bool
  is_waiting_result :: bool
  SERVER_IS_MASTER :: bool
  SERVER_IS_SLAVE :: bool
  SERVER_IS_RELAY_SERVER :: bool
  rlag :: int
  depth :: int
  last_read :: int
  session_commands :: "SessionCommand list"
  reply_state :: reply_state_t
  written :: "GWBUF list"

text \<open>
  Modelled from the spec: the two sentinels of the replication lag (server.h is absent):
  "unknown" lag of a server, and "no bound" for the maximum lag of a request. A lag in
  seconds is never negative, the sentinels are.
\<close>

definition MAX_RLAG_NOT_AVAILABLE :: int where "MAX_RLAG_NOT_AVAILABLE = - 1"
definition MAX_RLAG_UNDEFINED :: int where "MAX_RLAG_UNDEFINED = - 2"

text \<open>
  \<^verbatim>\<open>append_session_command\<close> and \<^verbatim>\<open>next_session_command\<close> of the handle: the queue
  is a list, appended at its end and read at its front.
\<close>

definition append_session_command :: "backend \<Rightarrow> SessionCommand \<Rightarrow> backend" where
  "append_session_command b sescmd = b\<lparr>session_commands := session_commands b @ [sescmd]\<rparr>"

definition next_session_command :: "backend \<Rightarrow> SessionCommand" where
  "next_session_command b = hd (session_commands b)"

text \<open>
  Modelled from the spec: the transaction-state oracle of the client session
  (\<^verbatim>\<open>session_trx_is_active\<close>, \<^verbatim>\<open>session_trx_is_read_only\<close>,
  \<^verbatim>\<open>session_trx_is_ending\<close>), which the router receives from the session layer, the
  command of the request being handled (\<^verbatim>\<open>mxs_mysql_current_command\<close>), and the
  "session-scoped retry slot": the stored statement with the name of the server it went to.
\<close>

record MXS_SESSION =
  session_trx_is_active :: bool
  session_trx_is_read_only :: bool
  session_trx_is_ending :: bool
  mxs_mysql_current_command :: "8 word"
  stmt :: "(GWBUF \<times> string) option"

text \<open>
  Modelled from the spec: \<^verbatim>\<open>session_store_stmt\<close> (the session layer, absent): "store the
  statement in session-scoped retry slot".
\<close>

definition session_store_stmt :: "MXS_SESSION \<Rightarrow> GWBUF \<Rightarrow> backend \<Rightarrow> bool \<times> MXS_SESSION" where
  "session_store_stmt ses buf server = (True, ses\<lparr>stmt := Some (buf, unique_name server)\<rparr>)"

text \<open>
  The client's connection: its session, whether its user data is present
  (\<^verbatim>\<open>client_dcb->data != NULL\<close>), and the packets written to the client.
\<close>

datatype client_packet = READONLY_ERROR_PACKET

record DCB =
  session :: MXS_SESSION
  dcb_has_data :: bool
  dcb_written :: "client_packet list"

text \<open>
  Modelled from the spec: \<^verbatim>\<open>send_readonly_error\<close> is defined in another file of the
  router, which is not among the sources. The spec: "the router emits ... a synthetic
  read-only error packet conforming to the downstream protocol" and "synthesise a read-only
  error reply for writes, keep session open"; it names no way for the reply to fail, so
  the packet is written to the client and the call reports success.
\<close>

definition send_readonly_error :: "DCB \<Rightarrow> bool \<times> DCB" where
  "send_readonly_error dcb = (True, dcb\<lparr>dcb_written := dcb_written dcb @ [READONLY_ERROR_PACKET]\<rparr>)"

text \<open>
  The configuration. \<^verbatim>\<open>connection_keepalive\<close> is an \<^verbatim>\<open>int\<close> the router calculates
  with: a 32-bit word, read as a signed number.
\<close>

record rwsplit_config_t =
  use_sql_variables_in :: mxs_target_t
  max_sescmd_history :: int
  disable_sescmd_history :: bool
  master_accept_reads :: bool
  strict_multi_stmt :: bool
  master_failure_mode :: failure_mode
  retry_failed_reads :: bool
  slave_selection_criteria :: nat
  connection_keepalive :: "32 word"

text \<open>
  An \<^verbatim>\<open>SRWBackend\<close> is a shared pointer to a backend handle of the session. All handles
  of a session live in \<^verbatim>\<open>rses->backends\<close>, in insertion order, so a pointer is the index
  of its handle in that list, and the empty pointer is \<open>None\<close>; pointer equality is
  equality of indices. (The spec, section 9: "current_master and target_node are relations
  into that set ... use an index".)
\<close>

type_synonym SRWBackend = "nat option"

text \<open>
  The router session (\<^verbatim>\<open>ROUTER_CLIENT_SES\<close>). \<^verbatim>\<open>sescmd_count\<close> and \<^verbatim>\<open>sent_sescmd\<close>
  are \<^verbatim>\<open>uint64_t\<close>; \<^verbatim>\<open>expected_responses\<close> is an \<^verbatim>\<open>int\<close> that counts at most one
  response per backend and statement, modelled without overflow. The response map
  (\<^verbatim>\<open>std::map\<close> from position to reply) is the list of its entries in key order.
\<close>

record ROUTER_CLIENT_SES =
  backends :: "backend list"
  current_master :: SRWBackend
  target_node :: SRWBackend
  rses_config :: rwsplit_config_t
  client_dcb :: DCB
  sescmd_count :: "64 word"
  sent_sescmd :: "64 word"
  expected_responses :: int
  sescmd_list :: "SessionCommand list"
  sescmd_responses :: "(64 word \<times> GWBUF) list"
  load_data_state :: load_data_state_t
  rses_load_data_sent :: "64 word"
  have_tmp_tables :: bool
  temp_tables :: "string list"

text \<open>The router instance: the statistics counters (\<^verbatim>\<open>uint64_t\<close>) and its configuration.\<close>

record ROUTER_INSTANCE =
  n_master :: "64 word"
  n_slave :: "64 word"
  n_queries :: "64 word"
  rwsplit_config :: rwsplit_config_t

text \<open>
  The functions this file calls and that are defined elsewhere in the repository (the
  backend class, the protocol module, the classifier, the other files of the router) are
  parameters of the model: a record of functions, each taking the state it reads and
  returning its result with the state it changes. The theorems hold for every such record.
  \<^item> \<^verbatim>\<open>criteria_cmpfun [sc]\<close>: the comparison of two handles under selection criterion
    \<open>sc\<close>; positive when the first has the larger criterion value.
  \<^item> \<^verbatim>\<open>execute_session_command\<close>, \<^verbatim>\<open>write\<close>, \<^verbatim>\<open>close\<close> of a handle, and
    \<^verbatim>\<open>modutil_ignorable_ping\<close> on its connection.
  \<^item> \<^verbatim>\<open>strtol\<close> in base 10: the \<^verbatim>\<open>long\<close> it returns, with whether \<^verbatim>\<open>errno\<close> is
    zero after the call.
  \<^item> \<^verbatim>\<open>hkheartbeat\<close>: the global clock, in tenths of a second.
  \<^item> \<^verbatim>\<open>read_past_buffer\<close>: the byte the memory holds at an index past the end of a
    buffer's data, which the source reads when it takes the command byte of a packet
    that is a header alone.
\<close>

record ext =
  criteria_cmpfun :: "nat \<Rightarrow> backend \<Rightarrow> backend \<Rightarrow> int"
  command_will_respond :: "8 word \<Rightarrow> bool"
  execute_session_command :: "backend \<Rightarrow> bool \<times> backend"
  backend_write :: "backend \<Rightarrow> GWBUF \<Rightarrow> bool \<Rightarrow> bool \<times> backend"
  backend_close :: "backend \<Rightarrow> backend"
  modutil_ignorable_ping :: "backend \<Rightarrow> backend"
  rses_get_max_replication_lag :: "ROUTER_CLIENT_SES \<Rightarrow> int"
  determine_packet_type :: "GWBUF \<Rightarrow> 8 word \<times> bool"
  determine_query_type :: "GWBUF \<Rightarrow> 8 word \<Rightarrow> bool \<Rightarrow> 32 word"
  check_for_multi_stmt :: "GWBUF \<Rightarrow> 8 word \<Rightarrow> bool"
  check_drop_tmp_table :: "ROUTER_CLIENT_SES \<Rightarrow> GWBUF \<Rightarrow> ROUTER_CLIENT_SES"
  is_read_tmp_table :: "ROUTER_CLIENT_SES \<Rightarrow> GWBUF \<Rightarrow> 32 word \<Rightarrow> bool"
  check_create_tmp_table :: "ROUTER_CLIENT_SES \<Rightarrow> GWBUF \<Rightarrow> 32 word \<Rightarrow> ROUTER_CLIENT_SES"
  is_packet_a_query :: "8 word \<Rightarrow> bool"
  qc_get_operation_is_load :: "GWBUF \<Rightarrow> bool"
  handle_target_is_all ::
    "route_target_t \<Rightarrow> ROUTER_INSTANCE \<Rightarrow> ROUTER_CLIENT_SES \<Rightarrow> GWBUF \<Rightarrow> 8 word \<Rightarrow> 32 word
      \<Rightarrow> bool \<times> ROUTER_INSTANCE \<times> ROUTER_CLIENT_SES"
  strtol :: "string \<Rightarrow> int \<times> bool"
  hkheartbeat :: int
  read_past_buffer :: "8 word list \<Rightarrow> nat \<Rightarrow> 8 word"

subsection \<open>The backend selector\<close>

text \<open>
  Inside the loops a handle in hand is the pair of its index in \<^verbatim>\<open>rses->backends\<close> (the
  pointer) and the handle it points to.
\<close>

type_synonym bref_t = "nat \<times> backend"

definition check_candidate_bref ::
  "ext \<Rightarrow> bref_t option \<Rightarrow> bref_t option \<Rightarrow> nat \<Rightarrow> bref_t option" where
  "check_candidate_bref X cand new_bref sc =
     (case new_bref of
        None \<Rightarrow> cand
      | Some n \<Rightarrow>
          (case cand of
             None \<Rightarrow> new_bref
           | Some c \<Rightarrow> if criteria_cmpfun X sc (snd c) (snd n) > 0 then new_bref else cand))"

text \<open>\<^verbatim>\<open>get_root_master_bref\<close>: the body of its loop, and the loop over the roster.\<close>

definition root_master_step :: "bref_t option \<Rightarrow> bref_t \<Rightarrow> bref_t option" where
  "root_master_step candidate bref =
     (if in_use (snd bref) \<and> SERVER_IS_MASTER (snd bref) \<and>
         (case candidate of
            None \<Rightarrow> True
          | Some c \<Rightarrow> depth (snd bref) < depth (snd c))
      then Some bref
      else candidate)"

definition get_root_master_bref :: "ROUTER_CLIENT_SES \<Rightarrow> bref_t option" where
  "get_root_master_bref rses = foldl root_master_step None (enumerate 0 (backends rses))"

text \<open>
  The test of the replication lag, which \<^verbatim>\<open>get_target_backend\<close> writes out three times:
  \<^verbatim>\<open>max_rlag == MAX_RLAG_UNDEFINED || (rlag != MAX_RLAG_NOT_AVAILABLE && rlag <= max_rlag)\<close>.
\<close>

definition rlag_ok :: "int \<Rightarrow> backend \<Rightarrow> bool" where
  "rlag_ok max_rlag b =
     (max_rlag = MAX_RLAG_UNDEFINED \<or> (rlag b \<noteq> MAX_RLAG_NOT_AVAILABLE \<and> rlag b \<le> max_rlag))"

text \<open>
  The body of the loop of the branch \<^verbatim>\<open>btype == BE_SLAVE\<close>, on the loop's state: the
  candidate and \<^verbatim>\<open>succp\<close>.
\<close>

definition slave_step ::
  "ext \<Rightarrow> ROUTER_CLIENT_SES \<Rightarrow> int \<Rightarrow> bref_t option \<times> bool \<Rightarrow> bref_t \<Rightarrow> bref_t option \<times> bool" where
  "slave_step X rses max_rlag st bref =
     (let candidate_bref = fst st; succp = snd st; b = snd bref in
      if \<not> in_use b \<or> \<not> is_active b \<or> (\<not> SERVER_IS_MASTER b \<and> \<not> SERVER_IS_SLAVE b)
      then st
      else
        (case candidate_bref of
           None \<Rightarrow>
             if SERVER_IS_MASTER b \<and> Some (fst bref) = current_master rses
             then (Some bref, True)
             else if rlag_ok max_rlag b
             then (Some bref, True)
             else st
         | Some cand \<Rightarrow>
             if SERVER_IS_MASTER (snd cand) \<and> SERVER_IS_SLAVE b \<and> rlag_ok max_rlag b \<and>
                \<not> master_accept_reads (rses_config rses)
             then (Some bref, True)
             else if SERVER_IS_SLAVE b \<or>
                     (master_accept_reads (rses_config rses) \<and> SERVER_IS_MASTER b)
             then
               (if rlag_ok max_rlag b
                then (check_candidate_bref X candidate_bref (Some bref)
                        (slave_selection_criteria (rses_config rses)), succp)
                else st)
             else st))"

definition slave_scan :: "ext \<Rightarrow> ROUTER_CLIENT_SES \<Rightarrow> int \<Rightarrow> bref_t option \<times> bool" where
  "slave_scan X rses max_rlag =
     foldl (slave_step X rses max_rlag) (None, False) (enumerate 0 (backends rses))"

text \<open>The test of the loop that looks a handle up by the name of a hint.\<close>

definition named_backend :: "string \<Rightarrow> bref_t \<Rightarrow> bool" where
  "named_backend name bref =
     (let b = snd bref in
      in_use b \<and> is_active b \<and> strcasecmp_eq name (unique_name b) \<and>
      (SERVER_IS_SLAVE b \<or> SERVER_IS_RELAY_SERVER b \<or> SERVER_IS_MASTER b))"

text \<open>
  \<^verbatim>\<open>get_target_backend\<close>. The name is a \<^verbatim>\<open>char *\<close>, \<open>None\<close> when \<^verbatim>\<open>NULL\<close>. The result
  is the returned \<^verbatim>\<open>bool\<close> and the value of the output parameter \<^verbatim>\<open>target\<close>, which
  keeps the value it came in with on the paths that do not assign it.
\<close>

definition get_target_backend ::
  "ext \<Rightarrow> ROUTER_CLIENT_SES \<Rightarrow> backend_type_t \<Rightarrow> string option \<Rightarrow> int \<Rightarrow> SRWBackend
    \<Rightarrow> bool \<times> SRWBackend" where
  "get_target_backend X rses btype name max_rlag target =
     (if target_node rses \<noteq> None \<and> session_trx_is_read_only (session (client_dcb rses))
      then (True, target_node rses)
      else
        let master_bref = get_root_master_bref rses;
            named = (case name of
                       None \<Rightarrow> None
                     | Some n \<Rightarrow> find (named_backend n) (enumerate 0 (backends rses)))
        in
        case named of
          Some bref \<Rightarrow> (True, Some (fst bref))
        | None \<Rightarrow>
            let btype = (if name \<noteq> None then BE_SLAVE else btype) in
            if btype = BE_SLAVE
            then
              (let (candidate_bref, succp) = slave_scan X rses max_rlag in
               (succp, case candidate_bref of Some c \<Rightarrow> Some (fst c) | None \<Rightarrow> target))
            else if btype = BE_MASTER
            then
              (case master_bref of
                 None \<Rightarrow> (False, target)
               | Some m \<Rightarrow>
                   if is_active (snd m)
                   then
                     (if in_use (snd m)
                      then (if SERVER_IS_MASTER (snd m) then (True, Some (fst m))
                            else (False, target))
                      else (False, target))
                   else (False, target))
            else (False, target))"

subsection \<open>The route-target resolver\<close>

text \<open>
  \<^verbatim>\<open>get_route_target\<close>, in its two parts: the target computed from the query type and
  the state of the session (up to the comment "process routing hints"), and the loop over
  the hint chain.
\<close>

definition get_route_target_base :: "ROUTER_CLIENT_SES \<Rightarrow> 32 word \<Rightarrow> route_target_t" where
  "get_route_target_base rses qtype =
     (let trx_active = session_trx_is_active (session (client_dcb rses));
          load_active = (load_data_state rses \<noteq> LOAD_DATA_INACTIVE);
          use_sql_variables_in = use_sql_variables_in (rses_config rses);
          target = TARGET_UNDEFINED
      in
      if target_node rses \<noteq> None \<and> target_node rses = current_master rses
      then TARGET_MASTER
      else if \<not> load_active \<and>
              (qc_query_is_type qtype QUERY_TYPE_SESSION_WRITE \<or>
               (use_sql_variables_in = TYPE_ALL \<and>
                qc_query_is_type qtype QUERY_TYPE_USERVAR_WRITE) \<or>
               qc_query_is_type qtype QUERY_TYPE_GSYSVAR_WRITE \<or>
               qc_query_is_type qtype QUERY_TYPE_ENABLE_AUTOCOMMIT \<or>
               qc_query_is_type qtype QUERY_TYPE_DISABLE_AUTOCOMMIT)
      then
        (let target =
               (if qc_query_is_type qtype QUERY_TYPE_READ \<and>
                   \<not> (qc_query_is_type qtype QUERY_TYPE_PREPARE_STMT \<or>
                      qc_query_is_type qtype QUERY_TYPE_PREPARE_NAMED_STMT)
                then TARGET_MASTER
                else target)
         in target OR TARGET_ALL)
      else if \<not> trx_active \<and> \<not> load_active \<and>
              \<not> qc_query_is_type qtype QUERY_TYPE_MASTER_READ \<and>
              \<not> qc_query_is_type qtype QUERY_TYPE_WRITE \<and>
              \<not> qc_query_is_type qtype QUERY_TYPE_PREPARE_STMT \<and>
              \<not> qc_query_is_type qtype QUERY_TYPE_PREPARE_NAMED_STMT \<and>
              (qc_query_is_type qtype QUERY_TYPE_READ \<or>
               qc_query_is_type qtype QUERY_TYPE_SHOW_TABLES \<or>
               qc_query_is_type qtype QUERY_TYPE_USERVAR_READ \<or>
               qc_query_is_type qtype QUERY_TYPE_SYSVAR_READ \<or>
               qc_query_is_type qtype QUERY_TYPE_GSYSVAR_READ)
      then
        (let target =
               (if qc_query_is_type qtype QUERY_TYPE_USERVAR_READ
                then (if use_sql_variables_in = TYPE_ALL then TARGET_SLAVE else target)
                else if qc_query_is_type qtype QUERY_TYPE_READ \<or>
                        qc_query_is_type qtype QUERY_TYPE_SHOW_TABLES \<or>
                        qc_query_is_type qtype QUERY_TYPE_SYSVAR_READ \<or>
                        qc_query_is_type qtype QUERY_TYPE_GSYSVAR_READ
                then TARGET_SLAVE
                else target)
         in if target AND (TARGET_ALL OR TARGET_SLAVE OR TARGET_MASTER) = 0
            then TARGET_MASTER
            else target)
      else if session_trx_is_read_only (session (client_dcb rses))
      then TARGET_SLAVE
      else TARGET_MASTER)"

definition max_slave_replication_lag_key :: string where
  "max_slave_replication_lag_key = ''max_slave_replication_lag''"

fun process_hints :: "route_target_t \<Rightarrow> HINT list \<Rightarrow> route_target_t" where
  "process_hints target [] = target"
| "process_hints target (h # next) =
     (if hint_type h = HINT_ROUTE_TO_MASTER
      then TARGET_MASTER
      else if hint_type h = HINT_ROUTE_TO_NAMED_SERVER
      then process_hints (target OR TARGET_NAMED_SERVER) next
      else if hint_type h = HINT_ROUTE_TO_UPTODATE_SERVER
      then process_hints target next
      else if hint_type h = HINT_ROUTE_TO_ALL
      then process_hints target next
      else if hint_type h = HINT_PARAMETER
      then
        (if strncasecmp_eq (hint_data h) max_slave_replication_lag_key
              (length max_slave_replication_lag_key)
         then process_hints (target OR TARGET_RLAG_MAX) next
         else process_hints target next)
      else if hint_type h = HINT_ROUTE_TO_SLAVE
      then process_hints TARGET_SLAVE next
      else process_hints target next)"

definition get_route_target :: "ROUTER_CLIENT_SES \<Rightarrow> 32 word \<Rightarrow> HINT list \<Rightarrow> route_target_t" where
  "get_route_target rses qtype hints = process_hints (get_route_target_base rses qtype) hints"

subsection \<open>The session-write path\<close>

text \<open>
  The loop of \<^verbatim>\<open>route_session_write\<close> over the roster. Its state is \<^verbatim>\<open>nsucc\<close>,
  \<^verbatim>\<open>lowest_pos\<close> and \<^verbatim>\<open>rses->expected_responses\<close>; it returns the handles as the loop
  leaves them. \<^verbatim>\<open>nsucc\<close> is an \<^verbatim>\<open>int\<close> that counts handles, modelled without overflow.
\<close>

fun session_write_loop ::
  "ext \<Rightarrow> SessionCommand \<Rightarrow> bool \<Rightarrow> backend list \<Rightarrow> int \<times> 64 word \<times> int
    \<Rightarrow> backend list \<times> int \<times> 64 word \<times> int" where
  "session_write_loop X sescmd expecting_response [] st = ([], st)"
| "session_write_loop X sescmd expecting_response (bref # rest) (nsucc, lowest_pos, expected) =
     (if in_use bref
      then
        (let b1 = append_session_command bref sescmd;
             current_pos = sc_position (next_session_command b1);
             lowest_pos = (if current_pos < lowest_pos then current_pos else lowest_pos);
             (ok, b2) = execute_session_command X b1;
             st = (if ok
                   then (nsucc + 1, lowest_pos,
                         if expecting_response then expected + 1 else expected)
                   else (nsucc, lowest_pos, expected));
             (bs, st') = session_write_loop X sescmd expecting_response rest st
         in (b2 # bs, st'))
      else
        (let (bs, st') =
               session_write_loop X sescmd expecting_response rest (nsucc, lowest_pos, expected)
         in (bref # bs, st')))"

text \<open>
  Pruning the stored responses: \<^verbatim>\<open>lower_bound (lowest_pos)\<close> is the first entry whose
  key is not below \<^verbatim>\<open>lowest_pos\<close>; when there is one, the entries before it are erased.
\<close>

definition prune_responses :: "64 word \<Rightarrow> (64 word \<times> GWBUF) list \<Rightarrow> (64 word \<times> GWBUF) list" where
  "prune_responses lowest_pos responses =
     (let it = dropWhile (\<lambda>e. fst e < lowest_pos) responses in
      if it \<noteq> [] then it else responses)"

text \<open>
  \<^verbatim>\<open>route_session_write\<close>. \<^verbatim>\<open>max_sescmd_history\<close> is compared with the unsigned
  \<^verbatim>\<open>sescmd_count\<close> only when it is positive, where the conversion keeps its value. The
  result is the returned \<^verbatim>\<open>bool\<close> (\<^verbatim>\<open>nsucc\<close> converted: not zero) and the session.
\<close>

definition route_session_write ::
  "ext \<Rightarrow> ROUTER_CLIENT_SES \<Rightarrow> GWBUF \<Rightarrow> 8 word \<Rightarrow> bool \<times> ROUTER_CLIENT_SES" where
  "route_session_write X rses querybuf command =
     (let id = sescmd_count rses;
          rses = rses\<lparr>sescmd_count := sescmd_count rses + 1\<rparr>;
          sescmd = \<lparr>sc_buffer = querybuf, sc_position = id\<rparr>;
          expecting_response = command_will_respond X command;
          (bs, nsucc, lowest_pos, expected) =
             session_write_loop X sescmd expecting_response (backends rses)
               (0, id, expected_responses rses);
          rses = rses\<lparr>backends := bs, expected_responses := expected\<rparr>;
          rses =
            (if max_sescmd_history (rses_config rses) > 0 \<and>
                uint (sescmd_count rses) \<ge> max_sescmd_history (rses_config rses)
             then rses\<lparr>rses_config := (rses_config rses)
                         \<lparr>disable_sescmd_history := True, max_sescmd_history := 0\<rparr>,
                       sescmd_list := []\<rparr>
             else rses);
          rses =
            (if disable_sescmd_history (rses_config rses)
             then rses\<lparr>sescmd_responses := prune_responses lowest_pos (sescmd_responses rses)\<rparr>
             else rses\<lparr>sescmd_list := sescmd_list rses @ [sescmd]\<rparr>);
          rses = (if nsucc \<noteq> 0 then rses\<lparr>sent_sescmd := id\<rparr> else rses)
      in (nsucc \<noteq> 0, rses))"

subsection \<open>The handlers of a resolved target\<close>

text \<open>
  The conversion of an integer to a C \<^verbatim>\<open>int\<close>, as in \<^verbatim>\<open>(int)strtol (...)\<close> and in the
  arithmetic on \<^verbatim>\<open>int\<close> variables: the value modulo \<open>2^32\<close>, read as a signed number.
\<close>

definition C_int :: "int \<Rightarrow> int" where
  "C_int i = sint (word_of_int i :: 32 word)"

text \<open>
  The loop of \<^verbatim>\<open>handle_hinted_target\<close> over the hint chain; its state is the name of
  the server looked for and the maximum lag. The \<^verbatim>\<open>long\<close> of \<^verbatim>\<open>strtol\<close> is cast to
  \<^verbatim>\<open>int\<close>.
\<close>

definition hinted_step :: "ext \<Rightarrow> string option \<times> int \<Rightarrow> HINT \<Rightarrow> string option \<times> int" where
  "hinted_step X st h =
     (if hint_type h = HINT_ROUTE_TO_NAMED_SERVER
      then (Some (hint_data h), snd st)
      else if hint_type h = HINT_PARAMETER \<and>
              strncasecmp_eq (hint_data h) max_slave_replication_lag_key
                (length max_slave_replication_lag_key)
      then
        (let (l, errno_zero) = strtol X (hint_value h);
             val = C_int l
         in if val \<noteq> 0 \<or> errno_zero then (fst st, val) else st)
      else st)"

definition handle_hinted_target ::
  "ext \<Rightarrow> ROUTER_CLIENT_SES \<Rightarrow> GWBUF \<Rightarrow> route_target_t \<Rightarrow> SRWBackend \<Rightarrow> bool \<times> SRWBackend" where
  "handle_hinted_target X rses querybuf route_target target =
     (let (named_server, rlag_max) =
             foldl (hinted_step X) (None, MAX_RLAG_UNDEFINED) (hint querybuf);
          rlag_max = (if rlag_max = MAX_RLAG_UNDEFINED
                      then rses_get_max_replication_lag X rses else rlag_max);
          btype = (if route_target AND TARGET_SLAVE \<noteq> 0 then BE_SLAVE else BE_MASTER)
      in get_target_backend X rses btype named_server rlag_max target)"

definition handle_slave_is_target ::
  "ext \<Rightarrow> ROUTER_INSTANCE \<Rightarrow> ROUTER_CLIENT_SES \<Rightarrow> SRWBackend
    \<Rightarrow> bool \<times> SRWBackend \<times> ROUTER_INSTANCE" where
  "handle_slave_is_target X inst rses target =
     (let rlag_max = rses_get_max_replication_lag X rses;
          (found, target) = get_target_backend X rses BE_SLAVE None rlag_max target
      in if found then (True, target, inst\<lparr>n_slave := n_slave inst + 1\<rparr>)
         else (False, target, inst))"

text \<open>
  \<^verbatim>\<open>handle_master_is_target\<close>. Its result: the returned \<^verbatim>\<open>bool\<close>, the output parameter
  \<^verbatim>\<open>target\<close>, the instance (its counter) and the session. A pointer of the session
  points into the roster; one outside it points to no handle.
\<close>

definition handle_master_is_target ::
  "ext \<Rightarrow> ROUTER_INSTANCE \<Rightarrow> ROUTER_CLIENT_SES \<Rightarrow> SRWBackend
    \<Rightarrow> bool \<times> SRWBackend \<times> ROUTER_INSTANCE \<times> ROUTER_CLIENT_SES" where
  "handle_master_is_target X inst rses target =
     (let (succp, target) =
             get_target_backend X rses BE_MASTER None MAX_RLAG_UNDEFINED target
      in
      if succp \<and> target = current_master rses
      then (succp, target, inst\<lparr>n_master := n_master inst + 1\<rparr>, rses)
      else if master_failure_mode (rses_config rses) = RW_ERROR_ON_WRITE
      then
        (let (succp, dcb) = send_readonly_error (client_dcb rses);
             rses = rses\<lparr>client_dcb := dcb\<rparr>;
             rses =
               (case current_master rses of
                  None \<Rightarrow> rses
                | Some m \<Rightarrow>
                    if m < length (backends rses) \<and> in_use (backends rses ! m)
                    then rses\<lparr>backends :=
                                (backends rses)[m := backend_close X (backends rses ! m)]\<rparr>
                    else rses)
         in (succp, target, inst, rses))
      else (False, target, inst, rses))"

text \<open>
  Modelled from the spec: the commands of the protocol that the router tells apart (the
  protocol header is absent): "quit, stmt-send-long-data, stmt-close" create no reply, and
  the preparation of a statement collects its whole reply. The values are the command bytes
  of the wire protocol.
\<close>

definition MYSQL_COM_QUIT :: "8 word" where "MYSQL_COM_QUIT = 0x01"
definition MYSQL_COM_STMT_PREPARE :: "8 word" where "MYSQL_COM_STMT_PREPARE = 0x16"
definition MYSQL_COM_STMT_SEND_LONG_DATA :: "8 word" where "MYSQL_COM_STMT_SEND_LONG_DATA = 0x18"
definition MYSQL_COM_STMT_CLOSE :: "8 word" where "MYSQL_COM_STMT_CLOSE = 0x19"

definition query_creates_reply :: "8 word \<Rightarrow> bool" where
  "query_creates_reply cmd =
     (cmd \<noteq> MYSQL_COM_QUIT \<and> cmd \<noteq> MYSQL_COM_STMT_SEND_LONG_DATA \<and> cmd \<noteq> MYSQL_COM_STMT_CLOSE)"

text \<open>
  \<^verbatim>\<open>MYSQL_GET_COMMAND\<close> reads the fifth byte of the packet. A packet of the header alone
  has none: there the source reads the byte that follows the buffer's data.
\<close>

definition MYSQL_GET_COMMAND :: "ext \<Rightarrow> 8 word list \<Rightarrow> 8 word" where
  "MYSQL_GET_COMMAND X data = (if 4 < length data then data ! 4 else read_past_buffer X data 4)"

text \<open>
  \<^verbatim>\<open>handle_got_target\<close>. The caller passes a pointer that is not empty: \<open>t\<close> is the
  index of the target. The response type of the write is \<open>True\<close> for
  \<^verbatim>\<open>EXPECT_RESPONSE\<close>.
\<close>

definition handle_got_target ::
  "ext \<Rightarrow> ROUTER_INSTANCE \<Rightarrow> ROUTER_CLIENT_SES \<Rightarrow> GWBUF \<Rightarrow> nat \<Rightarrow> bool
    \<Rightarrow> bool \<times> ROUTER_INSTANCE \<times> ROUTER_CLIENT_SES" where
  "handle_got_target X inst rses querybuf t store =
     (let rses =
            (if target_node rses = None \<and> session_trx_is_read_only (session (client_dcb rses))
             then rses\<lparr>target_node := Some t\<rparr>
             else rses);
          querybuf =
            (if MYSQL_GET_COMMAND X (gwbuf_data querybuf) = MYSQL_COM_STMT_PREPARE
             then querybuf\<lparr>gwbuf_collect_result := True\<rparr>
             else querybuf);
          cmd = mxs_mysql_current_command (session (client_dcb rses));
          response = (load_data_state rses \<noteq> LOAD_DATA_ACTIVE \<and> query_creates_reply cmd);
          (written, b) = backend_write X (backends rses ! t) querybuf response;
          rses = rses\<lparr>backends := (backends rses)[t := b]\<rparr>
      in
      if written
      then
        (let rses =
               (if store
                then rses\<lparr>client_dcb := (client_dcb rses)
                            \<lparr>session := snd (session_store_stmt (session (client_dcb rses))
                                               querybuf b)\<rparr>\<rparr>
                else rses);
             inst = inst\<lparr>n_queries := n_queries inst + 1\<rparr>;
             rses =
               (if response
                then rses\<lparr>backends := (backends rses)[t := b\<lparr>reply_state := REPLY_STATE_START\<rparr>],
                          expected_responses := expected_responses rses + 1,
                          load_data_state :=
                            (if load_data_state rses = LOAD_DATA_START then LOAD_DATA_ACTIVE
                             else if load_data_state rses = LOAD_DATA_END then LOAD_DATA_INACTIVE
                             else load_data_state rses)\<rparr>
                else rses);
             rses =
               (if target_node rses \<noteq> None \<and>
                   session_trx_is_read_only (session (client_dcb rses)) \<and>
                   session_trx_is_ending (session (client_dcb rses))
                then rses\<lparr>target_node := None\<rparr>
                else rses)
         in (True, inst, rses))
      else (False, inst, rses))"

subsection \<open>Routing one statement\<close>

text \<open>
  \<^verbatim>\<open>handle_multi_temp_and_load\<close>: the session and the query type (\<^verbatim>\<open>uint32_t *qtype\<close>)
  are returned updated. The session and the buffer are never \<^verbatim>\<open>NULL\<close> and the session has
  its client connection, so of the checks before the temporary tables one is left: the user
  data of the client connection.
\<close>

definition handle_multi_temp_and_load ::
  "ext \<Rightarrow> ROUTER_CLIENT_SES \<Rightarrow> GWBUF \<Rightarrow> 8 word \<Rightarrow> 32 word \<Rightarrow> ROUTER_CLIENT_SES \<times> 32 word" where
  "handle_multi_temp_and_load X rses querybuf packet_type qtype =
     (let (rses, qtype) =
            (if (target_node rses = None \<or> target_node rses \<noteq> current_master rses) \<and>
                check_for_multi_stmt X querybuf packet_type
             then
               (if current_master rses \<noteq> None
                then (rses\<lparr>target_node := current_master rses\<rparr>, qtype)
                else (rses, qtype OR QUERY_TYPE_WRITE))
             else (rses, qtype));
          (rses, qtype) =
            (if \<not> dcb_has_data (client_dcb rses)
             then (rses, qtype)
             else
               (let (rses, qtype) =
                      (if have_tmp_tables rses
                       then
                         (let rses = check_drop_tmp_table X rses querybuf in
                          if is_packet_a_query X packet_type \<and>
                             is_read_tmp_table X rses querybuf qtype
                          then (rses, qtype OR QUERY_TYPE_MASTER_READ)
                          else (rses, qtype))
                       else (rses, qtype))
                in (check_create_tmp_table X rses querybuf qtype, qtype)));
          rses =
            (if load_data_state rses = LOAD_DATA_ACTIVE
             then rses\<lparr>rses_load_data_sent :=
                         rses_load_data_sent rses + of_nat (gwbuf_length querybuf)\<rparr>
             else if is_packet_a_query X packet_type
             then
               (if qc_get_operation_is_load X querybuf
                then rses\<lparr>load_data_state := LOAD_DATA_START, rses_load_data_sent := 0\<rparr>
                else rses)
             else rses)
      in (rses, qtype))"

text \<open>
  \<^verbatim>\<open>handle_connection_keepalive\<close>: every in-use handle other than the target that waits
  for no result and was idle for longer than the keep-alive is pinged. The keep-alive
  (\<^verbatim>\<open>connection_keepalive * 10\<close>) and the idle time (\<^verbatim>\<open>int diff\<close>) are C
  \<^verbatim>\<open>int\<close>s, compared as signed numbers.
\<close>

definition handle_connection_keepalive ::
  "ext \<Rightarrow> ROUTER_INSTANCE \<Rightarrow> ROUTER_CLIENT_SES \<Rightarrow> SRWBackend \<Rightarrow> ROUTER_CLIENT_SES" where
  "handle_connection_keepalive X inst rses target =
     (let keepalive = sint (connection_keepalive (rwsplit_config inst) * 10) in
      rses\<lparr>backends :=
             map (\<lambda>bref.
                    if in_use (snd bref) \<and> Some (fst bref) \<noteq> target \<and>
                       \<not> is_waiting_result (snd bref) \<and>
                       C_int (hkheartbeat X - last_read (snd bref)) > keepalive
                    then modutil_ignorable_ping X (snd bref)
                    else snd bref)
               (enumerate 0 (backends rses))\<rparr>)"

text \<open>
  \<^verbatim>\<open>route_single_stmt\<close>, in its two parts. The first part, up to the declaration of
  \<^verbatim>\<open>target\<close>, finds the packet type, the query type and the route target; its result is
  what the second part reads: \<^verbatim>\<open>packet_type\<close>, \<^verbatim>\<open>qtype\<close>, \<^verbatim>\<open>route_target\<close> and the
  session.
\<close>

definition route_single_stmt_target ::
  "ext \<Rightarrow> ROUTER_CLIENT_SES \<Rightarrow> GWBUF \<Rightarrow> 8 word \<times> 32 word \<times> route_target_t \<times> ROUTER_CLIENT_SES" where
  "route_single_stmt_target X rses querybuf =
     (let (packet_type, non_empty_packet) = determine_packet_type X querybuf;
          qtype = determine_query_type X querybuf packet_type non_empty_packet
      in
      if non_empty_packet
      then
        (let (rses, qtype) = handle_multi_temp_and_load X rses querybuf packet_type qtype;
             route_target = get_route_target rses qtype (hint querybuf)
         in (packet_type, qtype, route_target, rses))
      else (packet_type, qtype, TARGET_MASTER, rses\<lparr>load_data_state := LOAD_DATA_END\<rparr>))"

text \<open>
  The second part hands the statement to the handler of its target; the value
  \<^verbatim>\<open>handle_got_target\<close> returns is not read.
\<close>

definition route_single_stmt_dispatch ::
  "ext \<Rightarrow> ROUTER_INSTANCE \<Rightarrow> ROUTER_CLIENT_SES \<Rightarrow> GWBUF \<Rightarrow> 8 word \<Rightarrow> 32 word \<Rightarrow> route_target_t
    \<Rightarrow> bool \<times> ROUTER_INSTANCE \<times> ROUTER_CLIENT_SES" where
  "route_single_stmt_dispatch X inst rses querybuf packet_type qtype route_target =
     (let target = None;
          (succp, target, inst, rses) =
            (if TARGET_IS_ALL route_target
             then
               (let (succp, inst, rses) =
                      handle_target_is_all X route_target inst rses querybuf packet_type qtype
                in (succp, target, inst, rses))
             else
               (let (succp, target, store_stmt, inst, rses) =
                      (if TARGET_IS_NAMED_SERVER route_target \<or> TARGET_IS_RLAG_MAX route_target
                       then
                         (let (succp, target) =
                                handle_hinted_target X rses querybuf route_target target
                          in (succp, target, False, inst, rses))
                       else if TARGET_IS_SLAVE route_target
                       then
                         (let (succp, target, inst) = handle_slave_is_target X inst rses target
                          in (succp, target, retry_failed_reads (rses_config rses), inst, rses))
                       else if TARGET_IS_MASTER route_target
                       then
                         (let (succp, target, inst, rses) =
                                handle_master_is_target X inst rses target;
                              rses =
                                (if \<not> strict_multi_stmt (rses_config rses) \<and>
                                    target_node rses = current_master rses
                                 then rses\<lparr>target_node := None\<rparr>
                                 else rses)
                          in (succp, target, False, inst, rses))
                       else (False, target, False, inst, rses))
                in
                case target of
                  Some t \<Rightarrow>
                    if succp
                    then
                      (let (sent, inst, rses) = handle_got_target X inst rses querybuf t store_stmt
                       in (succp, target, inst, rses))
                    else (succp, target, inst, rses)
                | None \<Rightarrow> (succp, target, inst, rses)));
          rses =
            (if succp \<and> connection_keepalive (rwsplit_config inst) \<noteq> 0 \<and>
                (TARGET_IS_SLAVE route_target \<or> TARGET_IS_MASTER route_target)
             then handle_connection_keepalive X inst rses target
             else rses)
      in (succp, inst, rses))"

definition route_single_stmt ::
  "ext \<Rightarrow> ROUTER_INSTANCE \<Rightarrow> ROUTER_CLIENT_SES \<Rightarrow> GWBUF
    \<Rightarrow> bool \<times> ROUTER_INSTANCE \<times> ROUTER_CLIENT_SES" where
  "route_single_stmt X inst rses querybuf =
     (let (packet_type, qtype, route_target, rses) = route_single_stmt_target X rses querybuf
      in route_single_stmt_dispatch X inst rses querybuf packet_type qtype route_target)"

subsection \<open>A session to run the model on\<close>

text \<open>
  The session of the spec's scenarios: the backends P (the primary), R1 and R2 (replicas),
  all in use, with stand-ins for the functions that are parameters of the model. The
  stand-ins take the names of the servers whose connection is broken (a write to them
  fails) and the query type the classifier answers; they compare handles by their
  replication lag.
\<close>

definition example_backend :: "string \<Rightarrow> bool \<Rightarrow> backend" where
  "example_backend name master =
     \<lparr>unique_name = name, in_use = True, is_active = True, is_waiting_result = False,
      SERVER_IS_MASTER = master, SERVER_IS_SLAVE = (\<not> master), SERVER_IS_RELAY_SERVER = False,
      rlag = 0, depth = (if master then 0 else 1), last_read = 0, session_commands = [],
      reply_state = REPLY_STATE_DONE, written = []\<rparr>"

definition example_config :: rwsplit_config_t where
  "example_config =
     \<lparr>use_sql_variables_in = TYPE_ALL, max_sescmd_history = 0, disable_sescmd_history = False,
      master_accept_reads = False, strict_multi_stmt = True,
      master_failure_mode = RW_FAIL_INSTANTLY, retry_failed_reads = False,
      slave_selection_criteria = 0, connection_keepalive = 0\<rparr>"

definition example_client :: DCB where
  "example_client =
     \<lparr>session = \<lparr>session_trx_is_active = False, session_trx_is_read_only = False,
                 session_trx_is_ending = False, mxs_mysql_current_command = 0x03,
                 stmt = None\<rparr>,
      dcb_has_data = True, dcb_written = []\<rparr>"

definition example_session :: ROUTER_CLIENT_SES where
  "example_session =
     \<lparr>backends = [example_backend ''P'' True, example_backend ''R1'' False,
                  example_backend ''R2'' False],
      current_master = Some 0, target_node = None, rses_config = example_config,
      client_dcb = example_client,
      sescmd_count = 0, sent_sescmd = 0, expected_responses = 0, sescmd_list = [],
      sescmd_responses = [], load_data_state = LOAD_DATA_INACTIVE, rses_load_data_sent = 0,
      have_tmp_tables = False, temp_tables = []\<rparr>"

definition example_instance :: ROUTER_INSTANCE where
  "example_instance = \<lparr>n_master = 0, n_slave = 0, n_queries = 0, rwsplit_config = example_config\<rparr>"

definition example_ext :: "string list \<Rightarrow> 32 word \<Rightarrow> ext" where
  "example_ext down qtype =
     \<lparr>criteria_cmpfun = (\<lambda>sc a b. rlag a - rlag b),
      command_will_respond = query_creates_reply,
      execute_session_command =
        (\<lambda>b. if unique_name b \<in> set down \<or> session_commands b = []
              then (False, b)
              else (True, b\<lparr>is_waiting_result := True,
                            written := written b @ [sc_buffer (hd (session_commands b))]\<rparr>)),
      backend_write =
        (\<lambda>b buf response.
           if unique_name b \<in> set down
           then (False, b)
           else (True, b\<lparr>is_waiting_result := response, written := written b @ [buf]\<rparr>)),
      backend_close = (\<lambda>b. b\<lparr>in_use := False\<rparr>),
      modutil_ignorable_ping = (\<lambda>b. b),
      rses_get_max_replication_lag = (\<lambda>rses. 2147483647),
      determine_packet_type =
        (\<lambda>buf. if 4 < length (gwbuf_data buf) then (gwbuf_data buf ! 4, True) else (0xFF, False)),
      determine_query_type = (\<lambda>buf packet_type non_empty. if non_empty then qtype else 0),
      check_for_multi_stmt = (\<lambda>buf packet_type. False),
      check_drop_tmp_table = (\<lambda>rses buf. rses),
      is_read_tmp_table = (\<lambda>rses buf qtype. False),
      check_create_tmp_table = (\<lambda>rses buf qtype. rses),
      is_packet_a_query = (\<lambda>packet_type. packet_type = 0x03),
      qc_get_operation_is_load = (\<lambda>buf. False),
      handle_target_is_all = (\<lambda>route_target inst rses buf packet_type qtype. (False, inst, rses)),
      strtol = (\<lambda>s. (0, True)),
      hkheartbeat = 0,
      read_past_buffer = (\<lambda>data i. 0)\<rparr>"

text \<open>A query packet: the header of four bytes, the command byte \<^verbatim>\<open>COM_QUERY\<close> and the text.\<close>

definition example_query :: "HINT list \<Rightarrow> GWBUF" where
  "example_query hints =
     \<lparr>gwbuf_data = [0x09, 0x00, 0x00, 0x00, 0x03, 0x53, 0x45, 0x4C, 0x45, 0x43, 0x54, 0x20, 0x31],
      hint = hints, gwbuf_collect_result = False\<rparr>"

text \<open>
  The same session inside a read-only transaction that is pinned to R1, and after a
  failover: P has lost the primary flag and R1 has been promoted, while the session still
  holds P as its primary.
\<close>

definition example_pinned_session :: ROUTER_CLIENT_SES where
  "example_pinned_session =
     example_session
       \<lparr>target_node := Some 1,
        client_dcb := example_client
          \<lparr>session := (session example_client)
             \<lparr>session_trx_is_active := True, session_trx_is_read_only := True\<rparr>\<rparr>\<rparr>"

definition example_failover_session :: "failure_mode \<Rightarrow> ROUTER_CLIENT_SES" where
  "example_failover_session mode =
     example_session
       \<lparr>backends := [(example_backend ''P'' False)\<lparr>SERVER_IS_SLAVE := False\<rparr>,
                    example_backend ''R1'' True, example_backend ''R2'' False],
        rses_config := example_config\<lparr>master_failure_mode := mode\<rparr>\<rparr>"

subsection \<open>The vocabulary of the properties\<close>






text \<open>
  A session is pinned when it has a \<^verbatim>\<open>target_node\<close> and its client is inside a read-only
  transaction.
\<close>

definition pinned :: "ROUTER_CLIENT_SES \<Rightarrow> bool" where
  "pinned rses =
     (target_node rses \<noteq> None \<and> session_trx_is_read_only (session (client_dcb rses)))"

text \<open>
  What the session-write loop does with one handle: the entry is enqueued and the handle's
  \<^verbatim>\<open>execute_session_command\<close> is called; the write succeeded on a handle when the handle
  is in use and that call returned true.
\<close>

definition session_write_exec :: "ext \<Rightarrow> SessionCommand \<Rightarrow> backend \<Rightarrow> bool \<times> backend" where
  "session_write_exec X sescmd b = execute_session_command X (append_session_command b sescmd)"

definition session_write_ok :: "ext \<Rightarrow> SessionCommand \<Rightarrow> backend \<Rightarrow> bool" where
  "session_write_ok X sescmd b = (in_use b \<and> fst (session_write_exec X sescmd b))"

text \<open>The route targets without hint bits and without the ALL bit: PRIMARY alone.\<close>

definition only_master :: "route_target_t \<Rightarrow> bool" where
  "only_master t =
     (TARGET_IS_MASTER t \<and> \<not> TARGET_IS_ALL t \<and> \<not> TARGET_IS_NAMED_SERVER t \<and>
      \<not> TARGET_IS_RLAG_MAX t \<and> \<not> TARGET_IS_SLAVE t)"




text \<open>
  The session after the read-only error was sent to the client and the handle
  \<^verbatim>\<open>current_master\<close> points to, if it is in use, was closed.
\<close>

definition error_sent_master_closed :: "ext \<Rightarrow> ROUTER_CLIENT_SES \<Rightarrow> ROUTER_CLIENT_SES" where
  "error_sent_master_closed X rses =
     rses\<lparr>client_dcb := (client_dcb rses)
            \<lparr>dcb_written := dcb_written (client_dcb rses) @ [READONLY_ERROR_PACKET]\<rparr>,
          backends :=
            (case current_master rses of
               None \<Rightarrow> backends rses
             | Some m \<Rightarrow>
                 if m < length (backends rses) \<and> in_use (backends rses ! m)
                 then (backends rses)[m := backend_close X (backends rses ! m)]
                 else backends rses)\<rparr>"

text \<open>
  The reset of the forced node that \<^verbatim>\<open>route_single_stmt\<close> makes after
  \<^verbatim>\<open>handle_master_is_target\<close>, in relaxed multi-statement mode.
\<close>

definition relaxed_reset :: "ROUTER_CLIENT_SES \<Rightarrow> ROUTER_CLIENT_SES" where
  "relaxed_reset rses =
     (if \<not> strict_multi_stmt (rses_config rses) \<and> target_node rses = current_master rses
      then rses\<lparr>target_node := None\<rparr>
      else rses)"

section \<open>Properties\<close>

lemmas TARGET_defs = TARGET_UNDEFINED_def TARGET_MASTER_def TARGET_SLAVE_def
  TARGET_NAMED_SERVER_def TARGET_ALL_def TARGET_RLAG_MAX_def

lemmas QUERY_TYPE_defs = QUERY_TYPE_UNKNOWN_def QUERY_TYPE_READ_def QUERY_TYPE_WRITE_def
  QUERY_TYPE_MASTER_READ_def QUERY_TYPE_SESSION_WRITE_def QUERY_TYPE_USERVAR_WRITE_def
  QUERY_TYPE_USERVAR_READ_def QUERY_TYPE_SYSVAR_READ_def QUERY_TYPE_GSYSVAR_READ_def
  QUERY_TYPE_GSYSVAR_WRITE_def QUERY_TYPE_ENABLE_AUTOCOMMIT_def
  QUERY_TYPE_DISABLE_AUTOCOMMIT_def QUERY_TYPE_PREPARE_NAMED_STMT_def
  QUERY_TYPE_PREPARE_STMT_def QUERY_TYPE_SHOW_TABLES_def

lemmas example_defs = example_backend_def example_config_def example_client_def
  example_session_def example_instance_def example_ext_def example_query_def
  example_pinned_session_def example_failover_session_def

subsection \<open>The route-target resolver\<close>

text \<open>
  C2 (corrected). For every input where load is not active, the query type contains one of
  session-write, user-variable-write with \<^verbatim>\<open>use_sql_variables_in = all\<close>,
  global-system-variable-write, enable-autocommit, disable-autocommit, and also contains
  READ but neither prepare-stmt nor prepare-named-stmt, the resolver, before hint
  processing, returns PRIMARY together with the ALL bit
  (\<^verbatim>\<open>TARGET_MASTER | TARGET_ALL\<close>): the source assigns \<^verbatim>\<open>TARGET_MASTER\<close> and then ORs
  \<^verbatim>\<open>TARGET_ALL\<close> in. It returns exactly PRIMARY, with no ALL bit, only when
  \<^verbatim>\<open>target_node\<close> is set and is the session's current primary, the first case of the
  resolver.
\<close>

theorem get_route_target_session_write_read:
  assumes "load_data_state rses = LOAD_DATA_INACTIVE"
    and "qc_query_is_type qtype QUERY_TYPE_SESSION_WRITE \<or>
         (use_sql_variables_in (rses_config rses) = TYPE_ALL \<and>
          qc_query_is_type qtype QUERY_TYPE_USERVAR_WRITE) \<or>
         qc_query_is_type qtype QUERY_TYPE_GSYSVAR_WRITE \<or>
         qc_query_is_type qtype QUERY_TYPE_ENABLE_AUTOCOMMIT \<or>
         qc_query_is_type qtype QUERY_TYPE_DISABLE_AUTOCOMMIT"
    and "qc_query_is_type qtype QUERY_TYPE_READ"
    and "\<not> qc_query_is_type qtype QUERY_TYPE_PREPARE_STMT"
    and "\<not> qc_query_is_type qtype QUERY_TYPE_PREPARE_NAMED_STMT"
  shows "get_route_target_base rses qtype =
           (if target_node rses \<noteq> None \<and> target_node rses = current_master rses
            then TARGET_MASTER
            else TARGET_MASTER OR TARGET_ALL) \<and>
         TARGET_IS_MASTER (get_route_target_base rses qtype) \<and>
         TARGET_IS_ALL (get_route_target_base rses qtype) =
           (\<not> (target_node rses \<noteq> None \<and> target_node rses = current_master rses))"
  using assms
  by (auto simp add: get_route_target_base_def Let_def TARGET_IS_ALL_def TARGET_IS_MASTER_def
      TARGET_defs)

text \<open>
  The claim as written fails on a session write that also reads (\<^verbatim>\<open>SESSION_WRITE | READ\<close>)
  in the example session, which has no \<^verbatim>\<open>target_node\<close>: the result is \<open>0x09\<close>, PRIMARY
  with the ALL bit set.
\<close>

theorem get_route_target_session_write_read_counterexample:
  "load_data_state example_session = LOAD_DATA_INACTIVE \<and>
   qc_query_is_type (QUERY_TYPE_SESSION_WRITE OR QUERY_TYPE_READ) QUERY_TYPE_SESSION_WRITE \<and>
   qc_query_is_type (QUERY_TYPE_SESSION_WRITE OR QUERY_TYPE_READ) QUERY_TYPE_READ \<and>
   \<not> qc_query_is_type (QUERY_TYPE_SESSION_WRITE OR QUERY_TYPE_READ) QUERY_TYPE_PREPARE_STMT \<and>
   \<not> qc_query_is_type (QUERY_TYPE_SESSION_WRITE OR QUERY_TYPE_READ)
        QUERY_TYPE_PREPARE_NAMED_STMT \<and>
   get_route_target_base example_session (QUERY_TYPE_SESSION_WRITE OR QUERY_TYPE_READ) = 0x09 \<and>
   get_route_target_base example_session (QUERY_TYPE_SESSION_WRITE OR QUERY_TYPE_READ)
     \<noteq> TARGET_MASTER \<and>
   TARGET_IS_ALL
     (get_route_target_base example_session (QUERY_TYPE_SESSION_WRITE OR QUERY_TYPE_READ))"
  by (simp add: get_route_target_base_def example_defs qc_query_is_type_def
      QUERY_TYPE_defs TARGET_defs TARGET_IS_ALL_def)

theorem get_route_target_session_write_read_witness:
  "get_route_target_base example_session (QUERY_TYPE_SESSION_WRITE OR QUERY_TYPE_READ) =
     TARGET_MASTER OR TARGET_ALL \<and>
   get_route_target_base (example_session\<lparr>target_node := Some 0\<rparr>)
     (QUERY_TYPE_DISABLE_AUTOCOMMIT OR QUERY_TYPE_READ) = TARGET_MASTER"
proof -
  have q: "qc_query_is_type (QUERY_TYPE_SESSION_WRITE OR QUERY_TYPE_READ) QUERY_TYPE_SESSION_WRITE"
    "qc_query_is_type (QUERY_TYPE_SESSION_WRITE OR QUERY_TYPE_READ) QUERY_TYPE_READ"
    "\<not> qc_query_is_type (QUERY_TYPE_SESSION_WRITE OR QUERY_TYPE_READ) QUERY_TYPE_PREPARE_STMT"
    "\<not> qc_query_is_type (QUERY_TYPE_SESSION_WRITE OR QUERY_TYPE_READ)
         QUERY_TYPE_PREPARE_NAMED_STMT"
    "qc_query_is_type (QUERY_TYPE_DISABLE_AUTOCOMMIT OR QUERY_TYPE_READ)
       QUERY_TYPE_DISABLE_AUTOCOMMIT"
    "qc_query_is_type (QUERY_TYPE_DISABLE_AUTOCOMMIT OR QUERY_TYPE_READ) QUERY_TYPE_READ"
    "\<not> qc_query_is_type (QUERY_TYPE_DISABLE_AUTOCOMMIT OR QUERY_TYPE_READ)
         QUERY_TYPE_PREPARE_STMT"
    "\<not> qc_query_is_type (QUERY_TYPE_DISABLE_AUTOCOMMIT OR QUERY_TYPE_READ)
         QUERY_TYPE_PREPARE_NAMED_STMT"
    by (simp_all add: qc_query_is_type_def QUERY_TYPE_defs)
  have l: "load_data_state example_session = LOAD_DATA_INACTIVE"
    "load_data_state (example_session\<lparr>target_node := Some 0\<rparr>) = LOAD_DATA_INACTIVE"
    by (simp_all add: example_defs)
  show ?thesis
    using get_route_target_session_write_read
            [of example_session "QUERY_TYPE_SESSION_WRITE OR QUERY_TYPE_READ"]
          get_route_target_session_write_read
            [of "example_session\<lparr>target_node := Some 0\<rparr>"
                "QUERY_TYPE_DISABLE_AUTOCOMMIT OR QUERY_TYPE_READ"]
          q l
    by (simp add: example_defs)
qed

lemma max_slave_replication_lag_key_length:
  "length max_slave_replication_lag_key = 25"
  by (simp add: max_slave_replication_lag_key_def)

lemma max_slave_replication_lag_key_lower:
  "map tolower (take 25 max_slave_replication_lag_key) = ''max_slave_replication_lag''"
  by (simp add: max_slave_replication_lag_key_def tolower_def)

lemma max_slave_replication_lag_key_match:
  "strncasecmp_eq d max_slave_replication_lag_key (length max_slave_replication_lag_key) =
     (map tolower (take 25 d) = ''max_slave_replication_lag'')"
  by (simp only: strncasecmp_eq_def max_slave_replication_lag_key_length
      max_slave_replication_lag_key_lower)

lemma process_hints_master_anywhere:
  "\<exists>h \<in> set hs. hint_type h = HINT_ROUTE_TO_MASTER \<Longrightarrow> process_hints t hs = TARGET_MASTER"
  by (induction hs arbitrary: t) auto

text \<open>
  C3 (corrected). For every target before the hints and every hint chain, the resolver
  processes the hints in list order: a route-to-primary hint replaces the target with
  PRIMARY and stops (so a chain that holds one yields PRIMARY); a route-to-named-server
  hint ORs the NAMED_SERVER bit in; a route-to-replica hint replaces the target with SLAVE;
  a parameter hint whose key begins with \<^verbatim>\<open>max_slave_replication_lag\<close>, compared over
  its first 25 characters without regard to the case of letters (\<^verbatim>\<open>strncasecmp\<close>), ORs
  the RLAG_MAX bit in; any other parameter hint, and the hints route-to-uptodate-server
  and route-to-all, leave the target unchanged.
\<close>

theorem process_hints_in_order:
  "process_hints t [] = t \<and>
   (hint_type h = HINT_ROUTE_TO_MASTER \<longrightarrow> process_hints t (h # hs) = TARGET_MASTER) \<and>
   (hint_type h = HINT_ROUTE_TO_NAMED_SERVER \<longrightarrow>
      process_hints t (h # hs) = process_hints (t OR TARGET_NAMED_SERVER) hs) \<and>
   (hint_type h = HINT_ROUTE_TO_SLAVE \<longrightarrow>
      process_hints t (h # hs) = process_hints TARGET_SLAVE hs) \<and>
   (hint_type h = HINT_PARAMETER \<and>
    map tolower (take 25 (hint_data h)) = ''max_slave_replication_lag'' \<longrightarrow>
      process_hints t (h # hs) = process_hints (t OR TARGET_RLAG_MAX) hs) \<and>
   (hint_type h = HINT_PARAMETER \<and>
    map tolower (take 25 (hint_data h)) \<noteq> ''max_slave_replication_lag'' \<longrightarrow>
      process_hints t (h # hs) = process_hints t hs) \<and>
   (hint_type h = HINT_ROUTE_TO_UPTODATE_SERVER \<or> hint_type h = HINT_ROUTE_TO_ALL \<longrightarrow>
      process_hints t (h # hs) = process_hints t hs) \<and>
   ((\<exists>m \<in> set hs. hint_type m = HINT_ROUTE_TO_MASTER) \<longrightarrow> process_hints t hs = TARGET_MASTER)"
  using process_hints_master_anywhere[of hs t]
  by (auto simp add: max_slave_replication_lag_key_match)

text \<open>
  The claim as written fails on a parameter hint whose key is not
  \<^verbatim>\<open>max_slave_replication_lag\<close> but begins with it: the RLAG_MAX bit is ORed in.
\<close>

theorem process_hints_in_order_counterexample:
  "''max_slave_replication_lag_ms'' \<noteq> ''max_slave_replication_lag'' \<and>
   process_hints TARGET_SLAVE
     [\<lparr>hint_type = HINT_PARAMETER, hint_data = ''max_slave_replication_lag_ms'',
       hint_value = ''5''\<rparr>] = TARGET_SLAVE OR TARGET_RLAG_MAX \<and>
   TARGET_SLAVE OR TARGET_RLAG_MAX \<noteq> TARGET_SLAVE"
  by (simp add: strncasecmp_eq_def max_slave_replication_lag_key_def tolower_def TARGET_defs)

theorem process_hints_in_order_witness:
  "process_hints TARGET_SLAVE
     [\<lparr>hint_type = HINT_ROUTE_TO_NAMED_SERVER, hint_data = ''R2'', hint_value = []\<rparr>,
      \<lparr>hint_type = HINT_PARAMETER, hint_data = ''Max_Slave_Replication_Lag'',
        hint_value = ''10''\<rparr>,
      \<lparr>hint_type = HINT_PARAMETER, hint_data = ''other'', hint_value = ''1''\<rparr>,
      \<lparr>hint_type = HINT_ROUTE_TO_ALL, hint_data = [], hint_value = []\<rparr>] = 0x16 \<and>
   process_hints TARGET_MASTER
     [\<lparr>hint_type = HINT_ROUTE_TO_SLAVE, hint_data = [], hint_value = []\<rparr>] = TARGET_SLAVE \<and>
   process_hints TARGET_SLAVE
     [\<lparr>hint_type = HINT_ROUTE_TO_NAMED_SERVER, hint_data = ''R2'', hint_value = []\<rparr>,
      \<lparr>hint_type = HINT_ROUTE_TO_MASTER, hint_data = [], hint_value = []\<rparr>,
      \<lparr>hint_type = HINT_ROUTE_TO_SLAVE, hint_data = [], hint_value = []\<rparr>] = TARGET_MASTER"
proof -
  let ?n = "\<lparr>hint_type = HINT_ROUTE_TO_NAMED_SERVER, hint_data = ''R2'', hint_value = []\<rparr>"
  let ?p = "\<lparr>hint_type = HINT_PARAMETER, hint_data = ''Max_Slave_Replication_Lag'',
             hint_value = ''10''\<rparr>"
  let ?o = "\<lparr>hint_type = HINT_PARAMETER, hint_data = ''other'', hint_value = ''1''\<rparr>"
  let ?a = "\<lparr>hint_type = HINT_ROUTE_TO_ALL, hint_data = [], hint_value = []\<rparr>"
  let ?s = "\<lparr>hint_type = HINT_ROUTE_TO_SLAVE, hint_data = [], hint_value = []\<rparr>"
  let ?m = "\<lparr>hint_type = HINT_ROUTE_TO_MASTER, hint_data = [], hint_value = []\<rparr>"
  let ?t1 = "TARGET_SLAVE OR TARGET_NAMED_SERVER"
  let ?t2 = "(TARGET_SLAVE OR TARGET_NAMED_SERVER) OR TARGET_RLAG_MAX"
  have 1: "process_hints TARGET_SLAVE [?n, ?p, ?o, ?a] = process_hints ?t1 [?p, ?o, ?a]"
    using process_hints_in_order
            [of TARGET_SLAVE ?n "[?p, ?o, ?a]", THEN conjunct2, THEN conjunct2, THEN conjunct1]
    by (simp del: process_hints.simps)
  have 2: "process_hints ?t1 [?p, ?o, ?a] = process_hints ?t2 [?o, ?a]"
    using process_hints_in_order
            [of ?t1 ?p "[?o, ?a]", THEN conjunct2, THEN conjunct2, THEN conjunct2,
             THEN conjunct2, THEN conjunct1]
    by (simp del: process_hints.simps add: tolower_def)
  have 3: "process_hints ?t2 [?o, ?a] = process_hints ?t2 [?a]"
    using process_hints_in_order
            [of ?t2 ?o "[?a]", THEN conjunct2, THEN conjunct2, THEN conjunct2,
             THEN conjunct2, THEN conjunct2, THEN conjunct1]
    by (simp del: process_hints.simps add: tolower_def)
  have 4: "process_hints ?t2 [?a] = process_hints ?t2 []"
    using process_hints_in_order
            [of ?t2 ?a "[]", THEN conjunct2, THEN conjunct2, THEN conjunct2,
             THEN conjunct2, THEN conjunct2, THEN conjunct2, THEN conjunct1]
    by (simp del: process_hints.simps)
  have 5: "process_hints ?t2 [] = ?t2"
    using process_hints_in_order[of ?t2 ?a "[]", THEN conjunct1] .
  have 6: "process_hints TARGET_MASTER [?s] = process_hints TARGET_SLAVE []"
    using process_hints_in_order
            [of TARGET_MASTER ?s "[]", THEN conjunct2, THEN conjunct2, THEN conjunct2,
             THEN conjunct1]
    by (simp del: process_hints.simps)
  have 7: "process_hints TARGET_SLAVE [] = TARGET_SLAVE"
    using process_hints_in_order[of TARGET_SLAVE ?a "[]", THEN conjunct1] .
  have 8: "process_hints TARGET_SLAVE [?n, ?m, ?s] = TARGET_MASTER"
    using process_hints_in_order
            [of TARGET_SLAVE ?n "[?n, ?m, ?s]", THEN conjunct2, THEN conjunct2,
             THEN conjunct2, THEN conjunct2, THEN conjunct2, THEN conjunct2, THEN conjunct2]
    by (simp del: process_hints.simps)
  have 9: "?t2 = (0x16 :: 32 word)"
    by (simp add: TARGET_defs)
  from 1 2 3 4 5 6 7 8 9 show ?thesis by (simp del: process_hints.simps)
qed

subsection \<open>The backend selector\<close>

lemma get_target_backend_pinned:
  "pinned rses \<Longrightarrow>
   get_target_backend X rses btype name max_rlag target = (True, target_node rses)"
  by (simp add: get_target_backend_def pinned_def)



























subsection \<open>The session-write path\<close>

lemma session_write_loop_backends:
  "fst (session_write_loop X sescmd e bs st) =
     map (\<lambda>b. if in_use b then snd (session_write_exec X sescmd b) else b) bs"
proof (induction bs arbitrary: st)
  case Nil
  show ?case by simp
next
  case (Cons b bs)
  obtain n lp ex where st: "st = (n, lp, ex)" by (cases st) auto
  show ?case
    unfolding st
    by (simp add: Let_def case_prod_beta Cons.IH session_write_exec_def)
qed

lemma session_write_loop_nsucc:
  "fst (snd (session_write_loop X sescmd e bs (n, lp, ex))) =
     n + int (length (filter (session_write_ok X sescmd) bs))"
proof (induction bs arbitrary: n lp ex)
  case Nil
  show ?case by simp
next
  case (Cons b bs)
  show ?case
    by (simp add: Let_def case_prod_beta Cons.IH session_write_exec_def session_write_ok_def)
qed

lemma session_write_loop_expected:
  "snd (snd (snd (session_write_loop X sescmd e bs (n, lp, ex)))) =
     ex + (if e then int (length (filter (session_write_ok X sescmd) bs)) else 0)"
proof (induction bs arbitrary: n lp ex)
  case Nil
  show ?case by simp
next
  case (Cons b bs)
  show ?case
    using Cons.IH
    by (cases e)
       (simp_all add: Let_def case_prod_beta session_write_exec_def session_write_ok_def)
qed

lemma route_session_write_fst:
  "fst (route_session_write X rses querybuf command) =
     (filter (session_write_ok X \<lparr>sc_buffer = querybuf, sc_position = sescmd_count rses\<rparr>)
        (backends rses) \<noteq> [])"
  by (simp add: route_session_write_def Let_def case_prod_beta session_write_loop_nsucc)

text \<open>
  C4 (confirmed). For every session write routed through \<^verbatim>\<open>route_session_write\<close>: the
  entry's position is the value of \<^verbatim>\<open>sescmd_count\<close> before the call, and the counter is
  one more after it; on every handle that is in use the entry is enqueued and
  \<^verbatim>\<open>execute_session_command\<close> is called, and the other handles are left as they are;
  \<^verbatim>\<open>expected_responses\<close> grows by one for each handle on which the call succeeded when
  the command awaits a response, and not at all when it does not; \<^verbatim>\<open>sent_sescmd\<close>
  becomes the position when at least one handle succeeded and keeps its value otherwise.
\<close>

theorem route_session_write_effects:
  "sescmd_count (snd (route_session_write X rses querybuf command)) = sescmd_count rses + 1 \<and>
   backends (snd (route_session_write X rses querybuf command)) =
     map (\<lambda>b. if in_use b
              then snd (session_write_exec X
                          \<lparr>sc_buffer = querybuf, sc_position = sescmd_count rses\<rparr> b)
              else b)
       (backends rses) \<and>
   expected_responses (snd (route_session_write X rses querybuf command)) =
     expected_responses rses +
       (if command_will_respond X command
        then int (length (filter
                   (session_write_ok X \<lparr>sc_buffer = querybuf, sc_position = sescmd_count rses\<rparr>)
                   (backends rses)))
        else 0) \<and>
   sent_sescmd (snd (route_session_write X rses querybuf command)) =
     (if \<exists>b \<in> set (backends rses).
           session_write_ok X \<lparr>sc_buffer = querybuf, sc_position = sescmd_count rses\<rparr> b
      then sescmd_count rses
      else sent_sescmd rses)"
  by (simp add: route_session_write_def Let_def case_prod_beta session_write_loop_nsucc
      session_write_loop_expected session_write_loop_backends filter_empty_conv)

text \<open>
  C5 (confirmed). For every session write after which \<^verbatim>\<open>sescmd_count\<close> is greater than
  or equal to a positive \<^verbatim>\<open>max_sescmd_history\<close>, the session sets
  \<^verbatim>\<open>disable_sescmd_history\<close> and its log of session commands is empty; nothing is
  written to the client, and the value the session write returns is the one it returns
  under any other bound \<open>m\<close>, so reaching the bound does not change it.
\<close>

theorem route_session_write_history_bound:
  assumes "0 < max_sescmd_history (rses_config rses)"
    and "max_sescmd_history (rses_config rses) \<le> uint (sescmd_count rses + 1)"
  shows "disable_sescmd_history (rses_config (snd (route_session_write X rses querybuf command))) \<and>
         sescmd_list (snd (route_session_write X rses querybuf command)) = [] \<and>
         client_dcb (snd (route_session_write X rses querybuf command)) = client_dcb rses \<and>
         fst (route_session_write X rses querybuf command) =
           fst (route_session_write X
                  (rses\<lparr>rses_config := (rses_config rses)\<lparr>max_sescmd_history := m\<rparr>\<rparr>)
                  querybuf command)"
  using assms
  by (simp add: route_session_write_fst)
     (simp add: route_session_write_def Let_def case_prod_beta)

text \<open>
  C10 (confirmed). \<^verbatim>\<open>route_session_write\<close> returns true if and only if on at least one
  handle that is in use the session command was executed with success: it reports success
  also when the command failed on other handles in use, and it returns false when no
  handle of the session is in use.
\<close>

theorem route_session_write_result:
  "fst (route_session_write X rses querybuf command) =
     (\<exists>b \<in> set (backends rses). in_use b \<and>
        fst (execute_session_command X
               (append_session_command b
                  \<lparr>sc_buffer = querybuf, sc_position = sescmd_count rses\<rparr>)))"
  by (simp add: route_session_write_fst filter_empty_conv session_write_ok_def
      session_write_exec_def)

theorem route_session_write_effects_witness:
  "sescmd_count (snd (route_session_write (example_ext [''R1''] 0)
      (example_session\<lparr>sescmd_count := 7, sent_sescmd := 5\<rparr>) (example_query []) 0x03)) = 8 \<and>
   map written (backends (snd (route_session_write (example_ext [''R1''] 0)
      (example_session\<lparr>sescmd_count := 7, sent_sescmd := 5\<rparr>) (example_query []) 0x03))) =
     [[example_query []], [], [example_query []]] \<and>
   map (map sc_position \<circ> session_commands)
     (backends (snd (route_session_write (example_ext [''R1''] 0)
        (example_session\<lparr>sescmd_count := 7, sent_sescmd := 5\<rparr>) (example_query []) 0x03))) =
     [[7], [7], [7]] \<and>
   expected_responses (snd (route_session_write (example_ext [''R1''] 0)
      (example_session\<lparr>sescmd_count := 7, sent_sescmd := 5\<rparr>) (example_query []) 0x03)) = 2 \<and>
   sent_sescmd (snd (route_session_write (example_ext [''R1''] 0)
      (example_session\<lparr>sescmd_count := 7, sent_sescmd := 5\<rparr>) (example_query []) 0x03)) = 7"
  using route_session_write_effects
          [of "example_ext [''R1''] 0" "example_session\<lparr>sescmd_count := 7, sent_sescmd := 5\<rparr>"
              "example_query []" "0x03"]
  by (simp add: example_defs session_write_ok_def session_write_exec_def
      append_session_command_def query_creates_reply_def MYSQL_COM_QUIT_def
      MYSQL_COM_STMT_SEND_LONG_DATA_def MYSQL_COM_STMT_CLOSE_def)

theorem route_session_write_history_bound_witness:
  "disable_sescmd_history (rses_config (snd (route_session_write (example_ext [] 0)
      (example_session\<lparr>sescmd_count := 2,
         rses_config := example_config\<lparr>max_sescmd_history := 3\<rparr>,
         sescmd_list := [\<lparr>sc_buffer = example_query [], sc_position = 0\<rparr>,
                         \<lparr>sc_buffer = example_query [], sc_position = 1\<rparr>]\<rparr>)
      (example_query []) 0x03))) \<and>
   sescmd_list (snd (route_session_write (example_ext [] 0)
      (example_session\<lparr>sescmd_count := 2,
         rses_config := example_config\<lparr>max_sescmd_history := 3\<rparr>,
         sescmd_list := [\<lparr>sc_buffer = example_query [], sc_position = 0\<rparr>,
                         \<lparr>sc_buffer = example_query [], sc_position = 1\<rparr>]\<rparr>)
      (example_query []) 0x03)) = [] \<and>
   fst (route_session_write (example_ext [] 0)
      (example_session\<lparr>sescmd_count := 2,
         rses_config := example_config\<lparr>max_sescmd_history := 3\<rparr>,
         sescmd_list := [\<lparr>sc_buffer = example_query [], sc_position = 0\<rparr>,
                         \<lparr>sc_buffer = example_query [], sc_position = 1\<rparr>]\<rparr>)
      (example_query []) 0x03)"
proof -
  let ?s = "example_session\<lparr>sescmd_count := 2,
         rses_config := example_config\<lparr>max_sescmd_history := 3\<rparr>,
         sescmd_list := [\<lparr>sc_buffer = example_query [], sc_position = 0\<rparr>,
                         \<lparr>sc_buffer = example_query [], sc_position = 1\<rparr>]\<rparr>"
  have h: "0 < max_sescmd_history (rses_config ?s)"
    "max_sescmd_history (rses_config ?s) \<le> uint (sescmd_count ?s + 1)"
    by (simp_all add: example_defs)
  have unbounded:
    "fst (route_session_write (example_ext [] 0)
            (?s\<lparr>rses_config := (rses_config ?s)\<lparr>max_sescmd_history := 0\<rparr>\<rparr>)
            (example_query []) 0x03)"
    by (simp add: route_session_write_def example_defs append_session_command_def Let_def)
  show ?thesis
    using route_session_write_history_bound
            [OF h, of "example_ext [] 0" "example_query []" "0x03" 0] unbounded
    by simp
qed

theorem route_session_write_result_witness:
  "fst (route_session_write (example_ext [''R1''] 0) example_session (example_query []) 0x03) \<and>
   \<not> fst (execute_session_command (example_ext [''R1''] 0)
            (append_session_command (example_backend ''R1'' False)
               \<lparr>sc_buffer = example_query [], sc_position = 0\<rparr>)) \<and>
   \<not> fst (route_session_write (example_ext [] 0)
            (example_session\<lparr>backends := [(example_backend ''P'' True)\<lparr>in_use := False\<rparr>]\<rparr>)
            (example_query []) 0x03)"
  using route_session_write_result
          [of "example_ext [''R1''] 0" example_session "example_query []" "0x03"]
        route_session_write_result
          [of "example_ext [] 0"
              "example_session\<lparr>backends := [(example_backend ''P'' True)\<lparr>in_use := False\<rparr>]\<rparr>"
              "example_query []" "0x03"]
  by (simp add: example_defs append_session_command_def)

subsection \<open>Routing to the primary\<close>

text \<open>
  The root primary the selector finds is a handle of the roster that is in use and flagged
  primary: an invariant of the loop of \<^verbatim>\<open>get_root_master_bref\<close>.
\<close>

lemma root_master_step_source:
  "root_master_step candidate bref = Some c \<Longrightarrow>
   candidate = Some c \<or> (c = bref \<and> in_use (snd bref) \<and> SERVER_IS_MASTER (snd bref))"
  by (simp add: root_master_step_def split: if_splits)

lemma root_master_fold_invariant:
  assumes "\<And>c. candidate = Some c \<Longrightarrow> P c"
    and "\<And>b. b \<in> set L \<Longrightarrow> in_use (snd b) \<Longrightarrow> SERVER_IS_MASTER (snd b) \<Longrightarrow> P b"
    and "foldl root_master_step candidate L = Some c"
  shows "P c"
  using assms
proof (induction L arbitrary: candidate)
  case Nil
  then show ?case by simp
next
  case (Cons bref L)
  have 1: "P d" if "root_master_step candidate bref = Some d" for d
  proof -
    from root_master_step_source[OF that]
    consider "candidate = Some d"
      | "d = bref" "in_use (snd bref)" "SERVER_IS_MASTER (snd bref)"
      by blast
    then show ?thesis
    proof cases
      case 1
      then show ?thesis by (rule Cons.prems(1))
    next
      case 2
      have "bref \<in> set (bref # L)" by simp
      from Cons.prems(2)[OF this 2(2) 2(3)] 2(1) show ?thesis by simp
    qed
  qed
  have 2: "P b" if "b \<in> set L" "in_use (snd b)" "SERVER_IS_MASTER (snd b)" for b
  proof -
    have "b \<in> set (bref # L)" using that(1) by simp
    from Cons.prems(2)[OF this that(2) that(3)] show ?thesis .
  qed
  have 3: "foldl root_master_step (root_master_step candidate bref) L = Some c"
    using Cons.prems(3) by simp
  from Cons.IH[OF 1 2 3] show ?case .
qed

lemma get_root_master_bref_found:
  assumes "get_root_master_bref rses = Some c"
  shows "fst c < length (backends rses) \<and> backends rses ! fst c = snd c \<and>
         in_use (snd c) \<and> SERVER_IS_MASTER (snd c)"
proof -
  let ?P = "\<lambda>c. c \<in> set (enumerate 0 (backends rses)) \<and> in_use (snd c) \<and>
                 SERVER_IS_MASTER (snd c)"
  have "?P c"
  proof (rule root_master_fold_invariant[where P = ?P and candidate = None
           and L = "enumerate 0 (backends rses)"])
    show "foldl root_master_step None (enumerate 0 (backends rses)) = Some c"
      using assms by (simp add: get_root_master_bref_def)
  qed simp_all
  then show ?thesis
    by (cases c) (simp add: in_set_enumerate_eq)
qed

lemma get_target_backend_master:
  "\<not> pinned rses \<Longrightarrow>
   get_target_backend X rses BE_MASTER None max_rlag target =
     (case get_root_master_bref rses of
        None \<Rightarrow> (False, target)
      | Some m \<Rightarrow>
          if is_active (snd m) \<and> in_use (snd m) \<and> SERVER_IS_MASTER (snd m)
          then (True, Some (fst m))
          else (False, target))"
  by (auto simp add: get_target_backend_def pinned_def Let_def split: option.splits)

lemma get_target_backend_master_found:
  assumes "\<not> pinned rses"
    and "get_target_backend X rses BE_MASTER None max_rlag target = (True, t)"
  shows "\<exists>i. t = Some i \<and> i < length (backends rses) \<and> in_use (backends rses ! i) \<and>
             is_active (backends rses ! i) \<and> SERVER_IS_MASTER (backends rses ! i)"
proof (cases "get_root_master_bref rses")
  case None
  with assms(2) show ?thesis
    by (simp add: get_target_backend_master[OF assms(1)])
next
  case (Some m)
  have m: "fst m < length (backends rses)" "backends rses ! fst m = snd m"
    using get_root_master_bref_found[OF Some] by simp_all
  from assms(2) Some have "is_active (snd m) \<and> in_use (snd m) \<and> SERVER_IS_MASTER (snd m)"
    and "t = Some (fst m)"
    by (auto simp add: get_target_backend_master[OF assms(1)] split: if_splits)
  with m show ?thesis by simp
qed

lemma get_target_backend_master_failed:
  assumes "get_target_backend X rses BE_MASTER None max_rlag target = (False, t)"
  shows "t = target"
proof (cases "pinned rses")
  case True
  from get_target_backend_pinned[OF True, of X BE_MASTER None max_rlag target] assms
  show ?thesis by simp
next
  case False
  from get_target_backend_master[OF False, of X max_rlag target] assms
  show ?thesis by (simp split: option.splits if_splits)
qed

lemma handle_master_is_target_changed:
  assumes "get_target_backend X rses BE_MASTER None MAX_RLAG_UNDEFINED target = (True, t)"
    and "t \<noteq> current_master rses"
    and "master_failure_mode (rses_config rses) \<noteq> RW_ERROR_ON_WRITE"
  shows "handle_master_is_target X inst rses target = (False, t, inst, rses)"
  using assms by (simp add: handle_master_is_target_def)

lemma handle_master_is_target_readonly_error:
  assumes "master_failure_mode (rses_config rses) = RW_ERROR_ON_WRITE"
    and "get_target_backend X rses BE_MASTER None MAX_RLAG_UNDEFINED target = (found, t)"
    and "\<not> (found \<and> t = current_master rses)"
  shows "handle_master_is_target X inst rses target =
           (True, t, inst, error_sent_master_closed X rses)"
  using assms
  by (auto simp add: handle_master_is_target_def send_readonly_error_def Let_def
      error_sent_master_closed_def split: option.splits)

lemma handle_master_is_target_cached_only:
  "master_failure_mode (rses_config rses) \<noteq> RW_ERROR_ON_WRITE \<Longrightarrow>
   fst (handle_master_is_target X inst rses target) \<Longrightarrow>
   fst (snd (handle_master_is_target X inst rses target)) = current_master rses"
  by (simp add: handle_master_is_target_def case_prod_beta split: if_splits)

text \<open>
  What \<^verbatim>\<open>route_single_stmt\<close> does with a target that is PRIMARY alone, by the result of
  \<^verbatim>\<open>handle_master_is_target\<close>.
\<close>

lemma dispatch_only_master:
  assumes "only_master route_target"
    and "handle_master_is_target X inst rses None = (succp, t, inst1, rses1)"
  shows "route_single_stmt_dispatch X inst rses querybuf packet_type qtype route_target =
     (let rses2 = relaxed_reset rses1;
          (inst3, rses3) =
            (case t of
               None \<Rightarrow> (inst1, rses2)
             | Some i \<Rightarrow>
                 if succp then snd (handle_got_target X inst1 rses2 querybuf i False)
                 else (inst1, rses2));
          rses4 =
            (if succp \<and> connection_keepalive (rwsplit_config inst3) \<noteq> 0
             then handle_connection_keepalive X inst3 rses3 t
             else rses3)
      in (succp, inst3, rses4))"
  using assms
  by (auto simp add: route_single_stmt_dispatch_def only_master_def relaxed_reset_def Let_def
      case_prod_beta split: option.splits)

lemma dispatch_master_changed:
  assumes "only_master route_target"
    and "get_target_backend X rses BE_MASTER None MAX_RLAG_UNDEFINED None = (True, t)"
    and "t \<noteq> current_master rses"
    and "master_failure_mode (rses_config rses) \<noteq> RW_ERROR_ON_WRITE"
  shows "route_single_stmt_dispatch X inst rses querybuf packet_type qtype route_target =
           (False, inst, relaxed_reset rses)"
  using dispatch_only_master[OF assms(1) handle_master_is_target_changed[OF assms(2,3,4)]]
  by (simp add: Let_def split: option.splits)

lemma dispatch_error_on_write:
  assumes "only_master route_target"
    and "master_failure_mode (rses_config rses) = RW_ERROR_ON_WRITE"
    and "get_target_backend X rses BE_MASTER None MAX_RLAG_UNDEFINED None = (found, t)"
    and "\<not> (found \<and> t = current_master rses)"
  shows "route_single_stmt_dispatch X inst rses querybuf packet_type qtype route_target =
     (let rses2 = relaxed_reset (error_sent_master_closed X rses);
          (inst3, rses3) =
            (case t of
               None \<Rightarrow> (inst, rses2)
             | Some i \<Rightarrow> snd (handle_got_target X inst rses2 querybuf i False));
          rses4 =
            (if connection_keepalive (rwsplit_config inst3) \<noteq> 0
             then handle_connection_keepalive X inst3 rses3 t
             else rses3)
      in (True, inst3, rses4))"
  using dispatch_only_master[OF assms(1) handle_master_is_target_readonly_error[OF assms(2,3,4)]]
  by (simp add: Let_def split: option.splits)

lemma route_single_stmt_resolved:
  "route_single_stmt_target X rses_in querybuf = (packet_type, qtype, route_target, rses) \<Longrightarrow>
   route_single_stmt X inst rses_in querybuf =
     route_single_stmt_dispatch X inst rses querybuf packet_type qtype route_target"
  by (simp add: route_single_stmt_def)

text \<open>
  What \<^verbatim>\<open>handle_got_target\<close> leaves as it was: the length of the roster, every handle
  other than the target, the client connection when the statement is not stored, and the
  configuration of the instance.
\<close>

lemma handle_got_target_frame:
  "length (backends (snd (snd (handle_got_target X inst rses querybuf t store)))) =
     length (backends rses) \<and>
   (\<forall>j. j \<noteq> t \<longrightarrow>
      backends (snd (snd (handle_got_target X inst rses querybuf t store))) ! j =
        backends rses ! j) \<and>
   (\<not> store \<longrightarrow>
      client_dcb (snd (snd (handle_got_target X inst rses querybuf t store))) =
        client_dcb rses) \<and>
   rwsplit_config (fst (snd (handle_got_target X inst rses querybuf t store))) =
     rwsplit_config inst"
proof -
  define r1 where "r1 =
    (if target_node rses = None \<and> session_trx_is_read_only (session (client_dcb rses))
     then rses\<lparr>target_node := Some t\<rparr> else rses)"
  define q1 where "q1 =
    (if MYSQL_GET_COMMAND X (gwbuf_data querybuf) = MYSQL_COM_STMT_PREPARE
     then querybuf\<lparr>gwbuf_collect_result := True\<rparr> else querybuf)"
  define resp where "resp =
    (load_data_state r1 \<noteq> LOAD_DATA_ACTIVE \<and>
     query_creates_reply (mxs_mysql_current_command (session (client_dcb r1))))"
  define w where "w = backend_write X (backends r1 ! t) q1 resp"
  define r2 where "r2 = r1\<lparr>backends := (backends r1)[t := snd w]\<rparr>"
  define r3 where "r3 =
    (if store
     then r2\<lparr>client_dcb := (client_dcb r2)
               \<lparr>session := snd (session_store_stmt (session (client_dcb r2)) q1 (snd w))\<rparr>\<rparr>
     else r2)"
  define r4 where "r4 =
    (if resp
     then r3\<lparr>backends := (backends r3)[t := (snd w)\<lparr>reply_state := REPLY_STATE_START\<rparr>],
             expected_responses := expected_responses r3 + 1,
             load_data_state :=
               (if load_data_state r3 = LOAD_DATA_START then LOAD_DATA_ACTIVE
                else if load_data_state r3 = LOAD_DATA_END then LOAD_DATA_INACTIVE
                else load_data_state r3)\<rparr>
     else r3)"
  define r5 where "r5 =
    (if target_node r4 \<noteq> None \<and> session_trx_is_read_only (session (client_dcb r4)) \<and>
        session_trx_is_ending (session (client_dcb r4))
     then r4\<lparr>target_node := None\<rparr> else r4)"
  have eq: "handle_got_target X inst rses querybuf t store =
              (if fst w then (True, inst\<lparr>n_queries := n_queries inst + 1\<rparr>, r5)
               else (False, inst, r2))"
    unfolding handle_got_target_def r5_def r4_def r3_def r2_def w_def resp_def q1_def r1_def
      Let_def case_prod_beta
    by (rule refl)
  have b1: "backends r1 = backends rses" and c1: "client_dcb r1 = client_dcb rses"
    by (simp_all add: r1_def)
  have l2: "length (backends r2) = length (backends rses)"
    and n2: "\<And>j. j \<noteq> t \<Longrightarrow> backends r2 ! j = backends rses ! j"
    and c2: "client_dcb r2 = client_dcb rses"
    by (simp_all add: r2_def b1 c1)
  have b3: "backends r3 = backends r2" and c3: "\<not> store \<Longrightarrow> client_dcb r3 = client_dcb r2"
    by (simp_all add: r3_def)
  have l4: "length (backends r4) = length (backends r3)"
    and n4: "\<And>j. j \<noteq> t \<Longrightarrow> backends r4 ! j = backends r3 ! j"
    and c4: "client_dcb r4 = client_dcb r3"
    by (simp_all add: r4_def)
  have b5: "backends r5 = backends r4" and c5: "client_dcb r5 = client_dcb r4"
    by (simp_all add: r5_def)
  show ?thesis
    unfolding eq
    by (simp add: b5 c5 l4 n4 c4 b3 c3 l2 n2 c2)
qed

lemma handle_got_target_length:
  "length (backends (snd (snd (handle_got_target X inst rses querybuf t store)))) =
     length (backends rses)"
  using handle_got_target_frame[of X inst rses querybuf t store] by blast

lemma handle_got_target_other:
  "j \<noteq> t \<Longrightarrow>
   backends (snd (snd (handle_got_target X inst rses querybuf t store))) ! j = backends rses ! j"
  using handle_got_target_frame[of X inst rses querybuf t store] by blast

lemma handle_got_target_client:
  "client_dcb (snd (snd (handle_got_target X inst rses querybuf t False))) = client_dcb rses"
  using handle_got_target_frame[of X inst rses querybuf t False] by blast

lemma handle_got_target_config:
  "rwsplit_config (fst (snd (handle_got_target X inst rses querybuf t store))) =
     rwsplit_config inst"
  using handle_got_target_frame[of X inst rses querybuf t store] by blast

text \<open>
  After the read-only error, the rest of the routing of the statement keeps the packets
  written to the client, and the handle that was closed is changed by the keep-alive ping
  at most.
\<close>

lemma error_on_write_routed:
  fixes X :: ext and inst :: ROUTER_INSTANCE and rses :: ROUTER_CLIENT_SES and querybuf :: GWBUF
  assumes "found \<longrightarrow> t \<noteq> current_master rses" and "\<not> found \<longrightarrow> t = None"
  defines "E \<equiv> relaxed_reset (error_sent_master_closed X rses)"
  defines "G \<equiv> (case t of None \<Rightarrow> (inst, E)
                 | Some i \<Rightarrow> snd (handle_got_target X inst E querybuf i False))"
  defines "F \<equiv> (if connection_keepalive (rwsplit_config (fst G)) \<noteq> 0
                 then handle_connection_keepalive X (fst G) (snd G) t else snd G)"
  shows "dcb_written (client_dcb F) = dcb_written (client_dcb rses) @ [READONLY_ERROR_PACKET]"
    and "current_master rses = Some m \<Longrightarrow> m < length (backends rses) \<Longrightarrow>
         in_use (backends rses ! m) \<Longrightarrow>
         backends F ! m =
           (let c = backend_close X (backends rses ! m) in
            if connection_keepalive (rwsplit_config inst) \<noteq> 0 \<and> in_use c \<and>
               \<not> is_waiting_result c \<and>
               C_int (hkheartbeat X - last_read c) >
                 sint (connection_keepalive (rwsplit_config inst) * 10)
            then modutil_ignorable_ping X c else c)"
proof -
  have cE: "dcb_written (client_dcb E) = dcb_written (client_dcb rses) @ [READONLY_ERROR_PACKET]"
    by (simp add: E_def relaxed_reset_def error_sent_master_closed_def)
  have cG: "client_dcb (snd G) = client_dcb E"
    by (simp add: G_def handle_got_target_client split: option.splits)
  have iG: "rwsplit_config (fst G) = rwsplit_config inst"
    by (simp add: G_def handle_got_target_config split: option.splits)
  have cF: "client_dcb F = client_dcb (snd G)"
    by (simp add: F_def handle_connection_keepalive_def Let_def)
  show "dcb_written (client_dcb F) = dcb_written (client_dcb rses) @ [READONLY_ERROR_PACKET]"
    by (simp add: cF cG cE)
  assume m: "current_master rses = Some m" "m < length (backends rses)"
    "in_use (backends rses ! m)"
  have tm: "t \<noteq> Some m"
    using assms(1,2) m(1) by (cases found) simp_all
  have lE: "length (backends E) = length (backends rses)"
    and bE: "backends E ! m = backend_close X (backends rses ! m)"
    using m by (simp_all add: E_def relaxed_reset_def error_sent_master_closed_def)
  have lG: "length (backends (snd G)) = length (backends E)"
    by (simp add: G_def handle_got_target_length split: option.splits)
  have bG: "backends (snd G) ! m = backends E ! m"
  proof (cases t)
    case None
    then show ?thesis by (simp add: G_def)
  next
    case (Some i)
    with tm have "m \<noteq> i" by simp
    from handle_got_target_other[OF this, of X inst E querybuf False] Some
    show ?thesis by (simp add: G_def)
  qed
  have mG: "m < length (backends (snd G))"
    using lG lE m(2) by simp
  show "backends F ! m =
           (let c = backend_close X (backends rses ! m) in
            if connection_keepalive (rwsplit_config inst) \<noteq> 0 \<and> in_use c \<and>
               \<not> is_waiting_result c \<and>
               C_int (hkheartbeat X - last_read c) >
                 sint (connection_keepalive (rwsplit_config inst) * 10)
            then modutil_ignorable_ping X c else c)"
    using tm mG
    by (auto simp add: F_def iG handle_connection_keepalive_def Let_def nth_enumerate_eq bG bE)
qed

text \<open>
  C9 (corrected). When the selector for role = primary succeeds but the handle it returns
  is not the session's \<^verbatim>\<open>current_master\<close>, and \<^verbatim>\<open>master_failure_mode\<close> is not
  error-on-write, \<^verbatim>\<open>handle_master_is_target\<close> returns false and leaves the session as it
  was, and \<^verbatim>\<open>route_single_stmt\<close> of a statement whose target is PRIMARY alone returns
  false without forwarding the statement (it does no more than the reset of the forced node
  of relaxed multi-statement mode): with such a failure mode a write succeeds only on the
  connection cached as \<^verbatim>\<open>current_master\<close>. On a session that is not pinned the handle
  found is a valid in-use root primary: a handle of the roster that is in use, active and
  flagged primary. On a pinned session the handle found is \<^verbatim>\<open>target_node\<close>, which need
  not be a primary.
\<close>

theorem handle_master_is_target_changed_master:
  assumes "get_target_backend X rses BE_MASTER None MAX_RLAG_UNDEFINED target = (True, t)"
    and "t \<noteq> current_master rses"
    and "master_failure_mode (rses_config rses) \<noteq> RW_ERROR_ON_WRITE"
  shows "handle_master_is_target X inst rses target = (False, t, inst, rses) \<and>
         (target = None \<and> only_master route_target \<longrightarrow>
            route_single_stmt_dispatch X inst rses querybuf packet_type qtype route_target =
              (False, inst, relaxed_reset rses)) \<and>
         (target = None \<and> only_master route_target \<and>
          route_single_stmt_target X rses_in querybuf = (packet_type, qtype, route_target, rses) \<longrightarrow>
            route_single_stmt X inst rses_in querybuf = (False, inst, relaxed_reset rses)) \<and>
         (\<not> pinned rses \<longrightarrow>
            (\<exists>i. t = Some i \<and> i < length (backends rses) \<and> in_use (backends rses ! i) \<and>
                 is_active (backends rses ! i) \<and> SERVER_IS_MASTER (backends rses ! i))) \<and>
         (pinned rses \<longrightarrow> t = target_node rses) \<and>
         (fst (handle_master_is_target X inst rses any_target) \<longrightarrow>
            fst (snd (handle_master_is_target X inst rses any_target)) = current_master rses)"
proof -
  have a: "handle_master_is_target X inst rses target = (False, t, inst, rses)"
    by (rule handle_master_is_target_changed[OF assms])
  have b: "target = None \<and> only_master route_target \<longrightarrow>
            route_single_stmt_dispatch X inst rses querybuf packet_type qtype route_target =
              (False, inst, relaxed_reset rses)"
    using dispatch_master_changed[where route_target = route_target and X = X and rses = rses
        and t = t and inst = inst and querybuf = querybuf and packet_type = packet_type
        and qtype = qtype]
      assms by blast
  have c: "target = None \<and> only_master route_target \<and>
          route_single_stmt_target X rses_in querybuf = (packet_type, qtype, route_target, rses) \<longrightarrow>
            route_single_stmt X inst rses_in querybuf = (False, inst, relaxed_reset rses)"
    using b route_single_stmt_resolved[where X = X and rses_in = rses_in
        and querybuf = querybuf and packet_type = packet_type and qtype = qtype
        and route_target = route_target and rses = rses and inst = inst]
    by simp
  have d: "\<not> pinned rses \<longrightarrow>
            (\<exists>i. t = Some i \<and> i < length (backends rses) \<and> in_use (backends rses ! i) \<and>
                 is_active (backends rses ! i) \<and> SERVER_IS_MASTER (backends rses ! i))"
    using get_target_backend_master_found[of rses X MAX_RLAG_UNDEFINED target t] assms(1)
    by blast
  have e: "pinned rses \<longrightarrow> t = target_node rses"
    using get_target_backend_pinned[of rses X BE_MASTER None MAX_RLAG_UNDEFINED target] assms(1)
    by auto
  have f: "fst (handle_master_is_target X inst rses any_target) \<longrightarrow>
            fst (snd (handle_master_is_target X inst rses any_target)) = current_master rses"
    using handle_master_is_target_cached_only[OF assms(3), where X = X and inst = inst
        and target = any_target] by blast
  from a b c d e f show ?thesis
    by (intro conjI)
qed

text \<open>
  The claim as written fails on a pinned session. In the example session pinned to the
  replica R1 inside a read-only transaction, the selector for role = primary succeeds and
  returns R1, which is not the session's \<^verbatim>\<open>current_master\<close> P, and
  \<^verbatim>\<open>handle_master_is_target\<close> returns false; but the handle found is no primary: R1 is
  not flagged primary, and the root primary of the roster is P, the cached primary itself.
\<close>

theorem handle_master_is_target_changed_master_counterexample:
  "get_target_backend (example_ext [] 0) example_pinned_session BE_MASTER None
     MAX_RLAG_UNDEFINED None = (True, Some 1) \<and>
   current_master example_pinned_session = Some 0 \<and>
   master_failure_mode (rses_config example_pinned_session) = RW_FAIL_INSTANTLY \<and>
   handle_master_is_target (example_ext [] 0) example_instance example_pinned_session None =
     (False, Some 1, example_instance, example_pinned_session) \<and>
   \<not> SERVER_IS_MASTER (backends example_pinned_session ! 1) \<and>
   get_root_master_bref example_pinned_session = Some (0, example_backend ''P'' True)"
proof -
  have sel: "get_target_backend (example_ext [] 0) example_pinned_session BE_MASTER None
               MAX_RLAG_UNDEFINED None = (True, Some 1)"
    by (simp add: get_target_backend_def example_defs)
  have h: "handle_master_is_target (example_ext [] 0) example_instance example_pinned_session
             None = (False, Some 1, example_instance, example_pinned_session)"
    by (simp add: handle_master_is_target_def sel) (simp add: example_defs)
  have r: "get_root_master_bref example_pinned_session = Some (0, example_backend ''P'' True)"
    by (simp add: get_root_master_bref_def root_master_step_def example_defs)
  have s: "current_master example_pinned_session = Some 0"
    "master_failure_mode (rses_config example_pinned_session) = RW_FAIL_INSTANTLY"
    "\<not> SERVER_IS_MASTER (backends example_pinned_session ! 1)"
    by (simp_all add: example_defs)
  from sel h r s show ?thesis by simp
qed

theorem handle_master_is_target_changed_master_witness:
  "get_target_backend (example_ext [] 0) (example_failover_session RW_FAIL_ON_WRITE) BE_MASTER
     None MAX_RLAG_UNDEFINED None = (True, Some 1) \<and>
   current_master (example_failover_session RW_FAIL_ON_WRITE) = Some 0 \<and>
   SERVER_IS_MASTER (backends (example_failover_session RW_FAIL_ON_WRITE) ! 1) \<and>
   handle_master_is_target (example_ext [] 0) example_instance
     (example_failover_session RW_FAIL_ON_WRITE) None =
     (False, Some 1, example_instance, example_failover_session RW_FAIL_ON_WRITE) \<and>
   route_single_stmt_dispatch (example_ext [] 0) example_instance
     (example_failover_session RW_FAIL_ON_WRITE) (example_query []) 0x03
     QUERY_TYPE_WRITE TARGET_MASTER =
     (False, example_instance, example_failover_session RW_FAIL_ON_WRITE)"
proof -
  let ?s = "example_failover_session RW_FAIL_ON_WRITE"
  have sel: "get_target_backend (example_ext [] 0) ?s BE_MASTER None MAX_RLAG_UNDEFINED None =
               (True, Some 1)"
    by (simp add: get_target_backend_def get_root_master_bref_def root_master_step_def
        example_defs Let_def)
  have cm: "Some 1 \<noteq> current_master ?s"
    and mode: "master_failure_mode (rses_config ?s) \<noteq> RW_ERROR_ON_WRITE"
    by (simp_all add: example_defs)
  have om: "only_master TARGET_MASTER"
    by (simp add: only_master_def TARGET_IS_MASTER_def TARGET_IS_ALL_def TARGET_IS_SLAVE_def
        TARGET_IS_NAMED_SERVER_def TARGET_IS_RLAG_MAX_def TARGET_defs)
  have rr: "relaxed_reset ?s = ?s"
    by (simp add: relaxed_reset_def example_defs)
  have np: "\<not> pinned ?s"
    by (simp add: pinned_def example_defs)
  note T = handle_master_is_target_changed_master[OF sel cm mode]
  have 1: "handle_master_is_target (example_ext [] 0) example_instance ?s None =
             (False, Some 1, example_instance, ?s)"
    using T[where inst = example_instance, THEN conjunct1] .
  have 2: "route_single_stmt_dispatch (example_ext [] 0) example_instance ?s (example_query [])
             0x03 QUERY_TYPE_WRITE TARGET_MASTER = (False, example_instance, ?s)"
    using T[where route_target = TARGET_MASTER and inst = example_instance
              and querybuf = "example_query []" and packet_type = "0x03"
              and qtype = QUERY_TYPE_WRITE,
            THEN conjunct2, THEN conjunct1] om rr
    by simp
  have 3: "SERVER_IS_MASTER (backends ?s ! 1)"
    using T[THEN conjunct2, THEN conjunct2, THEN conjunct2, THEN conjunct1] np
    by simp
  have "current_master ?s = Some 0"
    by (simp add: example_defs)
  with sel 1 2 3 show ?thesis by simp
qed

text \<open>
  C7 (confirmed). For every statement whose resolved target is PRIMARY alone, when the
  selector does not return the session's current primary and \<^verbatim>\<open>master_failure_mode\<close> is
  error-on-write, \<^verbatim>\<open>handle_master_is_target\<close> sends the client the read-only error
  packet, closes the handle \<^verbatim>\<open>current_master\<close> points to if that handle is in use,
  changes nothing else of the session and returns true. \<^verbatim>\<open>route_single_stmt\<close> goes on
  from that session: it resets the forced node in relaxed multi-statement mode, forwards
  the statement to the handle the selector returned, if it returned one, pings the idle
  handles when the keep-alive is set, and returns true, so the session stays open. In the
  session it leaves, the client was written the read-only error packet and nothing else,
  and the closed handle is as \<^verbatim>\<open>close\<close> left it, or pinged by the keep-alive.
\<close>

theorem handle_master_is_target_error_on_write:
  assumes "master_failure_mode (rses_config rses) = RW_ERROR_ON_WRITE"
    and "get_target_backend X rses BE_MASTER None MAX_RLAG_UNDEFINED target = (found, t)"
    and "\<not> (found \<and> t = current_master rses)"
  shows "handle_master_is_target X inst rses target =
           (True, t, inst, error_sent_master_closed X rses) \<and>
         (target = None \<and> only_master route_target \<longrightarrow>
            route_single_stmt_dispatch X inst rses querybuf packet_type qtype route_target =
              (let rses2 = relaxed_reset (error_sent_master_closed X rses);
                   (inst3, rses3) =
                     (case t of
                        None \<Rightarrow> (inst, rses2)
                      | Some i \<Rightarrow> snd (handle_got_target X inst rses2 querybuf i False));
                   rses4 =
                     (if connection_keepalive (rwsplit_config inst3) \<noteq> 0
                      then handle_connection_keepalive X inst3 rses3 t
                      else rses3)
               in (True, inst3, rses4))) \<and>
         (target = None \<and> only_master route_target \<and>
          route_single_stmt_target X rses_in querybuf = (packet_type, qtype, route_target, rses) \<longrightarrow>
            route_single_stmt X inst rses_in querybuf =
              route_single_stmt_dispatch X inst rses querybuf packet_type qtype route_target \<and>
            fst (route_single_stmt X inst rses_in querybuf) \<and>
            dcb_written (client_dcb (snd (snd (route_single_stmt X inst rses_in querybuf)))) =
              dcb_written (client_dcb rses) @ [READONLY_ERROR_PACKET] \<and>
            (\<forall>m. current_master rses = Some m \<and> m < length (backends rses) \<and>
                 in_use (backends rses ! m) \<longrightarrow>
                 backends (snd (snd (route_single_stmt X inst rses_in querybuf))) ! m =
                   (let c = backend_close X (backends rses ! m) in
                    if connection_keepalive (rwsplit_config inst) \<noteq> 0 \<and> in_use c \<and>
                       \<not> is_waiting_result c \<and>
                       C_int (hkheartbeat X - last_read c) >
                         sint (connection_keepalive (rwsplit_config inst) * 10)
                    then modutil_ignorable_ping X c else c)))"
proof -
  have a: "handle_master_is_target X inst rses target =
             (True, t, inst, error_sent_master_closed X rses)"
    by (rule handle_master_is_target_readonly_error[OF assms])
  have b: "route_single_stmt_dispatch X inst rses querybuf packet_type qtype route_target =
              (let rses2 = relaxed_reset (error_sent_master_closed X rses);
                   (inst3, rses3) =
                     (case t of
                        None \<Rightarrow> (inst, rses2)
                      | Some i \<Rightarrow> snd (handle_got_target X inst rses2 querybuf i False));
                   rses4 =
                     (if connection_keepalive (rwsplit_config inst3) \<noteq> 0
                      then handle_connection_keepalive X inst3 rses3 t
                      else rses3)
               in (True, inst3, rses4))"
    if "target = None" "only_master route_target"
    using dispatch_error_on_write[OF that(2) assms(1) _ assms(3), where X = X and inst = inst
        and querybuf = querybuf and packet_type = packet_type and qtype = qtype]
      assms(2) that(1)
    by simp
  have c: "route_single_stmt X inst rses_in querybuf =
              route_single_stmt_dispatch X inst rses querybuf packet_type qtype route_target \<and>
            fst (route_single_stmt X inst rses_in querybuf) \<and>
            dcb_written (client_dcb (snd (snd (route_single_stmt X inst rses_in querybuf)))) =
              dcb_written (client_dcb rses) @ [READONLY_ERROR_PACKET] \<and>
            (\<forall>m. current_master rses = Some m \<and> m < length (backends rses) \<and>
                 in_use (backends rses ! m) \<longrightarrow>
                 backends (snd (snd (route_single_stmt X inst rses_in querybuf))) ! m =
                   (let c = backend_close X (backends rses ! m) in
                    if connection_keepalive (rwsplit_config inst) \<noteq> 0 \<and> in_use c \<and>
                       \<not> is_waiting_result c \<and>
                       C_int (hkheartbeat X - last_read c) >
                         sint (connection_keepalive (rwsplit_config inst) * 10)
                    then modutil_ignorable_ping X c else c))"
    if "target = None" "only_master route_target"
      "route_single_stmt_target X rses_in querybuf = (packet_type, qtype, route_target, rses)"
  proof -
    have r: "route_single_stmt X inst rses_in querybuf =
               route_single_stmt_dispatch X inst rses querybuf packet_type qtype route_target"
      by (rule route_single_stmt_resolved[OF that(3)])
    have f1: "found \<longrightarrow> t \<noteq> current_master rses"
      using assms(3) by simp
    have f2: "\<not> found \<longrightarrow> t = None"
      using get_target_backend_master_failed[of X rses MAX_RLAG_UNDEFINED target t]
        assms(2) that(1) by auto
    note R = error_on_write_routed[OF f1 f2, where X = X and inst = inst and querybuf = querybuf]
    show ?thesis
      unfolding r b[OF that(1,2)]
      using R(1) R(2)
      by (simp add: Let_def case_prod_beta)
  qed
  from a b c show ?thesis
    by blast
qed

theorem handle_master_is_target_error_on_write_witness:
  "get_target_backend (example_ext [] QUERY_TYPE_WRITE)
     (example_failover_session RW_ERROR_ON_WRITE) BE_MASTER None MAX_RLAG_UNDEFINED None =
     (True, Some 1) \<and>
   current_master (example_failover_session RW_ERROR_ON_WRITE) = Some 0 \<and>
   handle_master_is_target (example_ext [] QUERY_TYPE_WRITE) example_instance
     (example_failover_session RW_ERROR_ON_WRITE) None =
     (True, Some 1, example_instance,
      (example_failover_session RW_ERROR_ON_WRITE)
        \<lparr>client_dcb := example_client\<lparr>dcb_written := [READONLY_ERROR_PACKET]\<rparr>,
         backends := [(example_backend ''P'' False)\<lparr>SERVER_IS_SLAVE := False, in_use := False\<rparr>,
                      example_backend ''R1'' True, example_backend ''R2'' False]\<rparr>) \<and>
   route_single_stmt (example_ext [] QUERY_TYPE_WRITE) example_instance
     (example_failover_session RW_ERROR_ON_WRITE) (example_query []) =
     (True, example_instance\<lparr>n_queries := 1\<rparr>,
      (example_failover_session RW_ERROR_ON_WRITE)
        \<lparr>client_dcb := example_client\<lparr>dcb_written := [READONLY_ERROR_PACKET]\<rparr>,
         backends := [(example_backend ''P'' False)\<lparr>SERVER_IS_SLAVE := False, in_use := False\<rparr>,
                      (example_backend ''R1'' True)
                        \<lparr>is_waiting_result := True, written := [example_query []],
                         reply_state := REPLY_STATE_START\<rparr>,
                      example_backend ''R2'' False],
         expected_responses := 1\<rparr>) \<and>
   dcb_written (client_dcb (snd (snd (route_single_stmt (example_ext [] QUERY_TYPE_WRITE)
     example_instance (example_failover_session RW_ERROR_ON_WRITE) (example_query []))))) =
     [READONLY_ERROR_PACKET] \<and>
   in_use (backends (snd (snd (route_single_stmt (example_ext [] QUERY_TYPE_WRITE)
     example_instance (example_failover_session RW_ERROR_ON_WRITE) (example_query [])))) ! 0) =
     False"
proof -
  let ?X = "example_ext [] QUERY_TYPE_WRITE"
  let ?s = "example_failover_session RW_ERROR_ON_WRITE"
  let ?e = "?s\<lparr>client_dcb := example_client\<lparr>dcb_written := [READONLY_ERROR_PACKET]\<rparr>,
              backends := [(example_backend ''P'' False)
                              \<lparr>SERVER_IS_SLAVE := False, in_use := False\<rparr>,
                           example_backend ''R1'' True, example_backend ''R2'' False]\<rparr>"
  let ?f = "?s\<lparr>client_dcb := example_client\<lparr>dcb_written := [READONLY_ERROR_PACKET]\<rparr>,
              backends := [(example_backend ''P'' False)
                              \<lparr>SERVER_IS_SLAVE := False, in_use := False\<rparr>,
                           (example_backend ''R1'' True)
                              \<lparr>is_waiting_result := True, written := [example_query []],
                               reply_state := REPLY_STATE_START\<rparr>,
                           example_backend ''R2'' False],
              expected_responses := 1\<rparr>"
  have sel: "get_target_backend ?X ?s BE_MASTER None MAX_RLAG_UNDEFINED None = (True, Some 1)"
    by (simp add: get_target_backend_def get_root_master_bref_def root_master_step_def
        example_defs Let_def)
  have mode: "master_failure_mode (rses_config ?s) = RW_ERROR_ON_WRITE"
    by (simp add: example_defs)
  have cm: "current_master ?s = Some 0"
    by (simp add: example_defs)
  have nf: "\<not> (True \<and> Some 1 = current_master ?s)"
    by (simp add: cm)
  have om: "only_master TARGET_MASTER"
    by (simp add: only_master_def TARGET_IS_MASTER_def TARGET_IS_ALL_def TARGET_IS_SLAVE_def
        TARGET_IS_NAMED_SERVER_def TARGET_IS_RLAG_MAX_def TARGET_defs)
  have rt: "route_single_stmt_target ?X ?s (example_query []) =
              (0x03, QUERY_TYPE_WRITE, TARGET_MASTER, ?s)"
    by (simp add: route_single_stmt_target_def handle_multi_temp_and_load_def
        get_route_target_def get_route_target_base_def qc_query_is_type_def QUERY_TYPE_defs
        TARGET_defs example_defs Let_def)
  have e: "error_sent_master_closed ?X ?s = ?e"
    by (simp add: error_sent_master_closed_def example_defs)
  have rr: "relaxed_reset ?e = ?e"
    by (simp add: relaxed_reset_def example_defs)
  have got: "handle_got_target ?X example_instance ?e (example_query []) 1 False =
               (True, example_instance\<lparr>n_queries := 1\<rparr>, ?f)"
    by (simp add: handle_got_target_def example_defs Let_def MYSQL_GET_COMMAND_def
        MYSQL_COM_STMT_PREPARE_def query_creates_reply_def MYSQL_COM_QUIT_def
        MYSQL_COM_STMT_SEND_LONG_DATA_def MYSQL_COM_STMT_CLOSE_def)
  have ka: "connection_keepalive (rwsplit_config example_instance) = 0"
    by (simp add: example_defs)
  note T = handle_master_is_target_error_on_write[OF mode sel nf]
  have 1: "handle_master_is_target ?X example_instance ?s None = (True, Some 1, example_instance, ?e)"
    using T[where inst = example_instance, THEN conjunct1] e by simp
  have 2: "route_single_stmt_dispatch ?X example_instance ?s (example_query []) 0x03
             QUERY_TYPE_WRITE TARGET_MASTER = (True, example_instance\<lparr>n_queries := 1\<rparr>, ?f)"
    using T[where route_target = TARGET_MASTER and inst = example_instance
              and querybuf = "example_query []" and packet_type = "0x03"
              and qtype = QUERY_TYPE_WRITE,
            THEN conjunct2, THEN conjunct1] om
    by (simp add: e rr got ka del: One_nat_def)
  have 3: "route_single_stmt ?X example_instance ?s (example_query []) =
             (True, example_instance\<lparr>n_queries := 1\<rparr>, ?f)"
    using T[where route_target = TARGET_MASTER and inst = example_instance
              and querybuf = "example_query []" and packet_type = "0x03"
              and qtype = QUERY_TYPE_WRITE and rses_in = ?s,
            THEN conjunct2, THEN conjunct2] om rt 2
    by simp
  have 4: "dcb_written (client_dcb ?f) = [READONLY_ERROR_PACKET]"
    "in_use (backends ?f ! 0) = False"
    by (simp_all add: example_defs)
  from sel cm 1 3 4 show ?thesis
    by (simp del: One_nat_def)
qed

subsection \<open>Routing one statement\<close>

text \<open>
  C8 (confirmed). For every client request that is an empty packet,
  \<^verbatim>\<open>route_single_stmt\<close> sets the route target to PRIMARY (\<^verbatim>\<open>TARGET_MASTER\<close>) and the
  load-data state to END, whatever the state was, in particular when it was ACTIVE; the
  query type and the hints of the packet are not looked at
  (\<^verbatim>\<open>handle_multi_temp_and_load\<close> and \<^verbatim>\<open>get_route_target\<close> are not called), and
  nothing else of the session changes before the statement is handed to the primary.
\<close>

theorem route_single_stmt_empty_packet:
  assumes "\<not> snd (determine_packet_type X querybuf)"
  shows "route_single_stmt_target X rses querybuf =
           (fst (determine_packet_type X querybuf),
            determine_query_type X querybuf (fst (determine_packet_type X querybuf)) False,
            TARGET_MASTER, rses\<lparr>load_data_state := LOAD_DATA_END\<rparr>) \<and>
         route_single_stmt X inst rses querybuf =
           route_single_stmt_dispatch X inst (rses\<lparr>load_data_state := LOAD_DATA_END\<rparr>) querybuf
             (fst (determine_packet_type X querybuf))
             (determine_query_type X querybuf (fst (determine_packet_type X querybuf)) False)
             TARGET_MASTER"
  using assms
  by (simp add: route_single_stmt_def route_single_stmt_target_def case_prod_beta Let_def)

theorem route_single_stmt_empty_packet_witness:
  "\<not> snd (determine_packet_type (example_ext [] QUERY_TYPE_READ)
            \<lparr>gwbuf_data = [0x00, 0x00, 0x00, 0x02],
             hint = [\<lparr>hint_type = HINT_ROUTE_TO_SLAVE, hint_data = [], hint_value = []\<rparr>],
             gwbuf_collect_result = False\<rparr>) \<and>
   fst (snd (snd (route_single_stmt_target (example_ext [] QUERY_TYPE_READ)
     (example_session\<lparr>load_data_state := LOAD_DATA_ACTIVE\<rparr>)
     \<lparr>gwbuf_data = [0x00, 0x00, 0x00, 0x02],
      hint = [\<lparr>hint_type = HINT_ROUTE_TO_SLAVE, hint_data = [], hint_value = []\<rparr>],
      gwbuf_collect_result = False\<rparr>))) = TARGET_MASTER \<and>
   snd (snd (snd (route_single_stmt_target (example_ext [] QUERY_TYPE_READ)
     (example_session\<lparr>load_data_state := LOAD_DATA_ACTIVE\<rparr>)
     \<lparr>gwbuf_data = [0x00, 0x00, 0x00, 0x02],
      hint = [\<lparr>hint_type = HINT_ROUTE_TO_SLAVE, hint_data = [], hint_value = []\<rparr>],
      gwbuf_collect_result = False\<rparr>))) = example_session\<lparr>load_data_state := LOAD_DATA_END\<rparr>"
proof -
  let ?q = "\<lparr>gwbuf_data = [0x00, 0x00, 0x00, 0x02],
             hint = [\<lparr>hint_type = HINT_ROUTE_TO_SLAVE, hint_data = [], hint_value = []\<rparr>],
             gwbuf_collect_result = False\<rparr>"
  have e: "\<not> snd (determine_packet_type (example_ext [] QUERY_TYPE_READ) ?q)"
    by (simp add: example_ext_def)
  from e route_single_stmt_empty_packet
         [OF e, of "example_session\<lparr>load_data_state := LOAD_DATA_ACTIVE\<rparr>" example_instance,
          THEN conjunct1]
  show ?thesis by simp
qed

subsection \<open>Read-only transactions\<close>

text \<open>
  C6 (code bug). While the session is inside a read-only transaction and \<^verbatim>\<open>target_node\<close>
  is set, every call of the backend selector returns \<^verbatim>\<open>target_node\<close>, whatever the
  requested role, name or lag bound. But not every statement of the transaction is forwarded
  to \<^verbatim>\<open>target_node\<close>: a statement whose resolved target is PRIMARY alone is handed to
  \<^verbatim>\<open>handle_master_is_target\<close>, which takes the selector's answer only when it is the
  session's \<^verbatim>\<open>current_master\<close>. When \<^verbatim>\<open>target_node\<close> is another handle and
  \<^verbatim>\<open>master_failure_mode\<close> is not error-on-write, \<^verbatim>\<open>handle_master_is_target\<close> fails and
  \<^verbatim>\<open>route_single_stmt\<close> returns false: the statement is written to no backend and the
  session is left as it was. The comment of \<^verbatim>\<open>handle_got_target\<close> says of the node of a
  read-only transaction: "That SLAVE backend will be used until COMMIT is seen".
\<close>

theorem read_only_transaction_primary_not_forwarded:
  assumes "target_node rses = Some tn"
    and "session_trx_is_read_only (session (client_dcb rses))"
  shows
    "get_target_backend X rses btype name max_rlag target = (True, Some tn) \<and>
     (only_master route_target \<and> Some tn \<noteq> current_master rses \<and>
      master_failure_mode (rses_config rses) \<noteq> RW_ERROR_ON_WRITE \<longrightarrow>
        handle_master_is_target X inst rses None = (False, Some tn, inst, rses) \<and>
        route_single_stmt_dispatch X inst rses querybuf packet_type qtype route_target =
          (False, inst, rses)) \<and>
     (only_master route_target \<and> Some tn \<noteq> current_master rses \<and>
      master_failure_mode (rses_config rses) \<noteq> RW_ERROR_ON_WRITE \<and>
      route_single_stmt_target X rses_in querybuf = (packet_type, qtype, route_target, rses) \<longrightarrow>
        route_single_stmt X inst rses_in querybuf = (False, inst, rses))"
proof -
  have p: "pinned rses"
    using assms by (simp add: pinned_def)
  have sel: "get_target_backend X rses btype name max_rlag target = (True, Some tn)" for btype name max_rlag target
    using get_target_backend_pinned[OF p, of X btype name max_rlag target] assms(1) by simp
  have b: "handle_master_is_target X inst rses None = (False, Some tn, inst, rses) \<and>
        route_single_stmt_dispatch X inst rses querybuf packet_type qtype route_target =
          (False, inst, rses)"
    if "only_master route_target" "Some tn \<noteq> current_master rses"
      "master_failure_mode (rses_config rses) \<noteq> RW_ERROR_ON_WRITE"
  proof -
    have r: "relaxed_reset rses = rses"
      using that(2) assms(1) by (simp add: relaxed_reset_def)
    from handle_master_is_target_changed[OF sel that(2,3), where inst = inst]
      dispatch_master_changed[OF that(1) sel that(2,3), where inst = inst
        and querybuf = querybuf and packet_type = packet_type and qtype = qtype] r
    show ?thesis by simp
  qed
  have c: "route_single_stmt X inst rses_in querybuf = (False, inst, rses)"
    if "only_master route_target" "Some tn \<noteq> current_master rses"
      "master_failure_mode (rses_config rses) \<noteq> RW_ERROR_ON_WRITE"
      "route_single_stmt_target X rses_in querybuf = (packet_type, qtype, route_target, rses)"
    using b[OF that(1,2,3)] route_single_stmt_resolved[OF that(4), where inst = inst]
    by simp
  from sel b c show ?thesis
    by blast
qed

text \<open>
  The failing input: the example session pinned to the replica R1 inside a read-only
  transaction, and a read with the hint route-to-primary. The statement resolves to
  PRIMARY; the selector returns R1, which is not the session's primary P, and the statement
  is forwarded to no backend: routing fails, the session is unchanged and nothing was
  written to R1.
\<close>

theorem read_only_transaction_primary_not_forwarded_witness:
  "target_node example_pinned_session = Some 1 \<and>
   session_trx_is_read_only (session (client_dcb example_pinned_session)) \<and>
   get_target_backend (example_ext [] QUERY_TYPE_READ) example_pinned_session BE_SLAVE
     (Some ''R2'') 0 None = (True, Some 1) \<and>
   route_single_stmt_target (example_ext [] QUERY_TYPE_READ) example_pinned_session
     (example_query [\<lparr>hint_type = HINT_ROUTE_TO_MASTER, hint_data = [], hint_value = []\<rparr>]) =
     (0x03, QUERY_TYPE_READ, TARGET_MASTER, example_pinned_session) \<and>
   route_single_stmt (example_ext [] QUERY_TYPE_READ) example_instance example_pinned_session
     (example_query [\<lparr>hint_type = HINT_ROUTE_TO_MASTER, hint_data = [], hint_value = []\<rparr>]) =
     (False, example_instance, example_pinned_session) \<and>
   map written (backends example_pinned_session) = [[], [], []]"
proof -
  let ?X = "example_ext [] QUERY_TYPE_READ"
  let ?q = "example_query [\<lparr>hint_type = HINT_ROUTE_TO_MASTER, hint_data = [], hint_value = []\<rparr>]"
  have tn: "target_node example_pinned_session = Some 1"
    and ro: "session_trx_is_read_only (session (client_dcb example_pinned_session))"
    by (simp_all add: example_defs)
  have t: "route_single_stmt_target ?X example_pinned_session ?q =
             (0x03, QUERY_TYPE_READ, TARGET_MASTER, example_pinned_session)"
    by (simp add: route_single_stmt_target_def handle_multi_temp_and_load_def
        get_route_target_def get_route_target_base_def qc_query_is_type_def QUERY_TYPE_defs
        example_defs Let_def)
  have om: "only_master TARGET_MASTER"
    by (simp add: only_master_def TARGET_IS_MASTER_def TARGET_IS_ALL_def TARGET_IS_SLAVE_def
        TARGET_IS_NAMED_SERVER_def TARGET_IS_RLAG_MAX_def TARGET_defs)
  have cfg: "Some 1 \<noteq> current_master example_pinned_session"
    "master_failure_mode (rses_config example_pinned_session) \<noteq> RW_ERROR_ON_WRITE"
    by (simp_all add: example_defs)
  note T = read_only_transaction_primary_not_forwarded[OF tn ro]
  have 1: "get_target_backend ?X example_pinned_session BE_SLAVE (Some ''R2'') 0 None =
             (True, Some 1)"
    using T[where X = ?X and btype = BE_SLAVE and name = "Some ''R2''" and max_rlag = 0
              and target = None, THEN conjunct1] .
  have 2: "route_single_stmt ?X example_instance example_pinned_session ?q =
             (False, example_instance, example_pinned_session)"
    using T[where X = ?X and route_target = TARGET_MASTER and inst = example_instance
              and querybuf = ?q and packet_type = "0x03" and qtype = QUERY_TYPE_READ
              and rses_in = example_pinned_session,
            THEN conjunct2, THEN conjunct2] om cfg t
    by simp
  have 3: "map written (backends example_pinned_session) = [[], [], []]"
    by (simp add: example_defs)
  from tn ro 1 t 2 3 show ?thesis by simp
qed

end
